theory Spec2Isabelle
  imports Main "HOL-Library.Word"
begin

section \<open>Data model\<close>

text \<open>
  A chat history is a Python list of dictionaries with the two keys \<open>role\<close> and
  \<open>content\<close>; the table stores it in a column of type list-of-struct.
\<close>

record message =
  role :: string
  content :: string

type_synonym chat_history = "message list"

text \<open>
  Every exception that can end a run: one raised by a collaborator (a generation or
  scoring call), and the four the table library raises (a length or width that does
  not fit, a series of one element where a longer or an empty column is needed, a column
  type that does not fit, a column that is not there).
\<close>

datatype error =
  GenerationError | ShapeError | InvalidOperationError | SchemaError | ColumnNotFoundError

subsection \<open>The table\<close>

text \<open>
  A series is a typed column. The schema of the pipeline has three column types: list of
  \<open>{role, content}\<close> structs, text, and signed 64-bit integers, which are machine
  words here. The scores come from a collaborator as Python integers, which have no
  bound: a list of them that are all in the signed 64-bit range makes an \<open>Int64\<close>
  column, any other list an integer column of another type (\<open>IntOther\<close>, which stands
  for whatever wider or unsigned type the library picks; no two such columns are taken to
  be of one type). A data frame is the list of its named columns, in column order.

  The table library is not part of the repository. The operations below keep the checks
  the library makes where the pipeline calls it:
  \<^item> the constructor from a dictionary takes columns of one length;
  \<^item> \<open>with_columns\<close> takes series as long as the frame is high (as long as each other
    for a frame without columns); a series of another length is refused: one of length 1
    with the invalid-operation error (the library broadcasts a scalar only, not a series
    of one element), any other with the shape error;
  \<^item> \<open>vstack\<close> takes a frame with the same column names in the same order and the same
    column types.

  An empty Python list has no element to infer a type from: the library types such a
  column \<open>Null\<close> and casts it when it is stacked with a typed column. The model gives it
  at once the type the schema has for that column.
\<close>

datatype series =
  ListStruct "chat_history list" | Utf8 "string list" | Int64 "64 word list" | IntOther "int list"

text \<open>\<open>pl.Series(name, xs)\<close> for a list of Python integers.\<close>

definition int64 :: "int \<Rightarrow> bool" where
  "int64 x = (- (2 ^ 63) \<le> x \<and> x < 2 ^ 63)"

definition int_series :: "int list \<Rightarrow> series" where
  "int_series xs = (if list_all int64 xs then Int64 (map word_of_int xs) else IntOther xs)"

type_synonym dataframe = "(string \<times> series) list"

fun series_len :: "series \<Rightarrow> nat" where
  "series_len (ListStruct xs) = length xs"
| "series_len (Utf8 xs) = length xs"
| "series_len (Int64 xs) = length xs"
| "series_len (IntOther xs) = length xs"

fun same_dtype :: "series \<Rightarrow> series \<Rightarrow> bool" where
  "same_dtype (ListStruct _) (ListStruct _) = True"
| "same_dtype (Utf8 _) (Utf8 _) = True"
| "same_dtype (Int64 _) (Int64 _) = True"
| "same_dtype _ _ = False"

fun series_append :: "series \<Rightarrow> series \<Rightarrow> series" where
  "series_append (ListStruct xs) (ListStruct ys) = ListStruct (xs @ ys)"
| "series_append (Utf8 xs) (Utf8 ys) = Utf8 (xs @ ys)"
| "series_append (Int64 xs) (Int64 ys) = Int64 (xs @ ys)"
| "series_append s _ = s"

definition columns :: "dataframe \<Rightarrow> string list" where
  "columns df = map fst df"

definition height :: "dataframe \<Rightarrow> nat" where
  "height df = (case df of [] \<Rightarrow> 0 | c # _ \<Rightarrow> series_len (snd c))"

text \<open>\<open>pl.DataFrame({...})\<close>: the columns of the dictionary, all of one length.\<close>

definition DataFrame :: "(string \<times> series) list \<Rightarrow> error + dataframe" where
  "DataFrame cols =
     (if \<forall>c \<in> set cols. series_len (snd c) = height cols then Inr cols else Inl ShapeError)"

text \<open>\<open>df[name].to_list()\<close> for a chat-history column and for a text column.\<close>

definition chat_history_list :: "dataframe \<Rightarrow> string \<Rightarrow> error + chat_history list" where
  "chat_history_list df name =
     (case map_of df name of
        None \<Rightarrow> Inl ColumnNotFoundError
      | Some (ListStruct xs) \<Rightarrow> Inr xs
      | Some _ \<Rightarrow> Inl SchemaError)"

definition text_list :: "dataframe \<Rightarrow> string \<Rightarrow> error + string list" where
  "text_list df name =
     (case map_of df name of
        None \<Rightarrow> Inl ColumnNotFoundError
      | Some (Utf8 xs) \<Rightarrow> Inr xs
      | Some _ \<Rightarrow> Inl SchemaError)"

text \<open>
  \<open>df.with_columns(s1, s2, ...)\<close>: every series must be as long as the frame is high;
  a series whose name the frame has replaces that column in place, another one is added
  on the right. The length checks come first, so no column is written when one does not
  fit: a series of one element that does not fit is refused before any other.
\<close>

fun put_column :: "dataframe \<Rightarrow> string \<times> series \<Rightarrow> dataframe" where
  "put_column [] c = [c]"
| "put_column (d # df) c = (if fst d = fst c then c # df else d # put_column df c)"

definition with_columns :: "dataframe \<Rightarrow> (string \<times> series) list \<Rightarrow> error + dataframe" where
  "with_columns df cols =
     (let misfits =
            filter (\<lambda>c. series_len (snd c) \<noteq> (if df = [] then height cols else height df)) cols
      in if list_ex (\<lambda>c. series_len (snd c) = 1) misfits then Inl InvalidOperationError
         else if misfits \<noteq> [] then Inl ShapeError
         else Inr (foldl put_column df cols))"

text \<open>\<open>df.vstack(other)\<close>: the rows of \<open>other\<close> below those of \<open>df\<close>.\<close>

definition vstack :: "dataframe \<Rightarrow> dataframe \<Rightarrow> error + dataframe" where
  "vstack df other =
     (if columns df \<noteq> columns other then Inl ShapeError
      else if \<not> list_all2 same_dtype (map snd df) (map snd other) then Inl SchemaError
      else Inr (map2 (\<lambda>c d. (fst c, series_append (snd c) (snd d))) df other))"

subsection \<open>The instruction and the collaborators\<close>

text \<open>
  \<open>KnowledgeParameter\<close> is declared outside this file; the pipeline reads these seven
  attributes of it. A model handle is opaque: \<open>'m\<close>.
\<close>

record 'm KnowledgeParameter =
  documents :: "string list"
  conversation_starter_instruction :: string
  conversation_personalization_instruction :: string
  conversation_starter_count :: int
  max_conversations :: int
  slm_model :: 'm
  llm_model :: 'm

text \<open>
  The six functions the pipeline imports are parameters of the model. Each is a call
  with an effect (a language model answers): it reads and changes a world \<open>'w\<close>, so two
  calls with the same arguments may answer differently, and it may raise. A built
  starter instruction is an opaque \<open>'b\<close>, a built chat history an opaque \<open>'h\<close>.
  The arguments are in the order of the callee's keywords as the pipeline passes them.
\<close>

record ('m, 'b, 'h, 'w) collaborators =
  build_knowledge_instruction :: "string \<Rightarrow> string \<Rightarrow> 'w \<Rightarrow> error + 'b \<times> 'w"
  generate_conversation_starter ::
    "'m \<Rightarrow> int \<Rightarrow> 'b \<Rightarrow> string option \<Rightarrow> 'w \<Rightarrow> error + chat_history list \<times> 'w"
  build_chat_histories ::
    "string \<Rightarrow> string list \<Rightarrow> chat_history list \<Rightarrow> 'w \<Rightarrow> error + 'h list \<times> 'w"
  generate_conversations_response :: "'m \<Rightarrow> 'h list \<Rightarrow> 'w \<Rightarrow> error + string list \<times> 'w"
  comparison_score ::
    "'m \<Rightarrow> chat_history list \<Rightarrow> string list \<Rightarrow> string list \<Rightarrow> 'w \<Rightarrow> error + int list \<times> 'w"
  generate_next_conversation ::
    "'m \<Rightarrow> chat_history list \<Rightarrow> string list \<Rightarrow> string list \<Rightarrow> string list \<Rightarrow> 'w
       \<Rightarrow> error + (string list \<times> string list) \<times> 'w"

section \<open>The pipeline\<close>

definition empty_augmented_data :: dataframe where
  "empty_augmented_data =
     [(''chat_history'', ListStruct []), (''document'', Utf8 []),
      (''slm_response'', Utf8 []), (''llm_response'', Utf8 []), (''scores'', Int64 [])]"

definition empty_temproary_augmented_data :: dataframe where
  "empty_temproary_augmented_data = [(''chat_history'', ListStruct []), (''document'', Utf8 [])]"

subsection \<open>Step 1: the conversation starters\<close>

fun seed_documents ::
  "('m, 'b, 'h, 'w) collaborators \<Rightarrow> 'm KnowledgeParameter \<Rightarrow> string list \<Rightarrow> dataframe \<Rightarrow> 'w
     \<Rightarrow> error + dataframe \<times> 'w" where
  "seed_documents c instruction [] temp w = Inr (temp, w)"
| "seed_documents c instruction (document # rest) temp w =
     (case build_knowledge_instruction c
             (conversation_starter_instruction instruction) document w of
        Inl e \<Rightarrow> Inl e
      | Inr (built_knowledge_instructions, w1) \<Rightarrow>
     (case generate_conversation_starter c (llm_model instruction)
             (conversation_starter_count instruction) built_knowledge_instructions None w1 of
        Inl e \<Rightarrow> Inl e
      | Inr (chat_histories_document, w2) \<Rightarrow>
     (case DataFrame
             [(''chat_history'', ListStruct chat_histories_document),
              (''document'', Utf8 (replicate (length chat_histories_document) document))] of
        Inl e \<Rightarrow> Inl e
      | Inr df \<Rightarrow>
     (case vstack temp df of
        Inl e \<Rightarrow> Inl e
      | Inr temp' \<Rightarrow> seed_documents c instruction rest temp' w2))))"

subsection \<open>Steps 2 to 4: responses, scores, follow-up questions\<close>

text \<open>The local variables of one round, as they stand when Step 5 begins.\<close>

record round_locals =
  scored_data :: dataframe
  chat_histories :: "chat_history list"
  slm_responses :: "string list"
  llm_responses :: "string list"
  scores :: "int list"
  slm_questions :: "string list"
  slm_documents :: "string list"
  llm_questions :: "string list"
  llm_documents :: "string list"

definition round_calls ::
  "('m, 'b, 'h, 'w) collaborators \<Rightarrow> 'm KnowledgeParameter \<Rightarrow> dataframe \<Rightarrow> 'w
     \<Rightarrow> error + round_locals \<times> 'w" where
  "round_calls c instruction temp w =
     (case text_list temp ''document'' of Inl e \<Rightarrow> Inl e | Inr docs0 \<Rightarrow>
     (case chat_history_list temp ''chat_history'' of Inl e \<Rightarrow> Inl e | Inr hists0 \<Rightarrow>
     (case build_chat_histories c (conversation_personalization_instruction instruction)
             docs0 hists0 w of
        Inl e \<Rightarrow> Inl e | Inr (built_chat_histories, w1) \<Rightarrow>
     (case generate_conversations_response c (slm_model instruction) built_chat_histories w1 of
        Inl e \<Rightarrow> Inl e | Inr (slm_rs, w2) \<Rightarrow>
     (case generate_conversations_response c (llm_model instruction) built_chat_histories w2 of
        Inl e \<Rightarrow> Inl e | Inr (llm_rs, w3) \<Rightarrow>
     (case with_columns temp [(''slm_response'', Utf8 slm_rs), (''llm_response'', Utf8 llm_rs)] of
        Inl e \<Rightarrow> Inl e | Inr temp1 \<Rightarrow>
     (case chat_history_list temp1 ''chat_history'' of Inl e \<Rightarrow> Inl e | Inr hists1 \<Rightarrow>
     (case comparison_score c (llm_model instruction) hists1 llm_rs slm_rs w3 of
        Inl e \<Rightarrow> Inl e | Inr (scs, w4) \<Rightarrow>
     (case with_columns temp1 [(''scores'', int_series scs)] of
        Inl e \<Rightarrow> Inl e | Inr temp2 \<Rightarrow>
     (case chat_history_list temp2 ''chat_history'' of Inl e \<Rightarrow> Inl e | Inr hists2 \<Rightarrow>
     (case text_list temp2 ''document'' of Inl e \<Rightarrow> Inl e | Inr docs2 \<Rightarrow>
     (case generate_next_conversation c (llm_model instruction) hists2 slm_rs docs2
             (documents instruction) w4 of
        Inl e \<Rightarrow> Inl e | Inr ((slm_qs, slm_ds), w5) \<Rightarrow>
     (case chat_history_list temp2 ''chat_history'' of Inl e \<Rightarrow> Inl e | Inr hists3 \<Rightarrow>
     (case text_list temp2 ''document'' of Inl e \<Rightarrow> Inl e | Inr docs3 \<Rightarrow>
     (case generate_next_conversation c (slm_model instruction) hists3 slm_rs docs3
             (documents instruction) w5 of
        Inl e \<Rightarrow> Inl e | Inr ((llm_qs, llm_ds), w6) \<Rightarrow>
     (case chat_history_list temp2 ''chat_history'' of Inl e \<Rightarrow> Inl e | Inr hists4 \<Rightarrow>
        Inr (\<lparr>scored_data = temp2, chat_histories = hists4,
                slm_responses = slm_rs, llm_responses = llm_rs, scores = scs,
                slm_questions = slm_qs, slm_documents = slm_ds,
                llm_questions = llm_qs, llm_documents = llm_ds\<rparr>, w6)))))))))))))))))"

subsection \<open>Step 5: the two successors of every conversation\<close>

text \<open>
  The loop runs over the \<open>zip\<close> of seven lists, which stops with the shortest of them.
  Each pass appends the SLM successor and its document, then the LLM successor and its
  document.
\<close>

definition zip7 ::
  "'a list \<Rightarrow> 'b list \<Rightarrow> 'c list \<Rightarrow> 'd list \<Rightarrow> 'e list \<Rightarrow> 'f list \<Rightarrow> 'g list
     \<Rightarrow> ('a \<times> 'b \<times> 'c \<times> 'd \<times> 'e \<times> 'f \<times> 'g) list" where
  "zip7 as bs cs ds es fs gs = zip as (zip bs (zip cs (zip ds (zip es (zip fs gs)))))"

fun expand_step ::
  "chat_history list \<times> string list
     \<Rightarrow> chat_history \<times> string \<times> string \<times> string \<times> string \<times> string \<times> string
     \<Rightarrow> chat_history list \<times> string list" where
  "expand_step (generated_chat_histories, generated_chat_documents)
       (chat_history, slm_response, llm_response, slm_question, llm_question,
        slm_document, llm_document) =
     ((generated_chat_histories
         @ [chat_history @ [\<lparr>role = ''assistant'', content = slm_response\<rparr>,
                            \<lparr>role = ''user'', content = slm_question\<rparr>]])
         @ [chat_history @ [\<lparr>role = ''assistant'', content = llm_response\<rparr>,
                            \<lparr>role = ''user'', content = llm_question\<rparr>]],
      (generated_chat_documents @ [slm_document]) @ [llm_document])"

definition expand :: "round_locals \<Rightarrow> chat_history list \<times> string list" where
  "expand l =
     foldl expand_step ([], [])
       (zip7 (chat_histories l) (slm_responses l) (llm_responses l)
             (slm_questions l) (llm_questions l) (slm_documents l) (llm_documents l))"

subsection \<open>One round, and the loop\<close>

text \<open>
  The state of the loop: the accumulated result set \<open>augmented_data\<close>, the working set
  \<open>temproary_augmented_data\<close>, and the world of the collaborators.
\<close>

type_synonym 'w loop_state = "dataframe \<times> dataframe \<times> 'w"

definition round_step ::
  "('m, 'b, 'h, 'w) collaborators \<Rightarrow> 'm KnowledgeParameter \<Rightarrow> 'w loop_state
     \<Rightarrow> error + 'w loop_state" where
  "round_step c instruction st =
     (case st of (augmented_data, temp, w) \<Rightarrow>
     (case round_calls c instruction temp w of Inl e \<Rightarrow> Inl e | Inr (l, w') \<Rightarrow>
     (case vstack augmented_data (scored_data l) of Inl e \<Rightarrow> Inl e | Inr augmented_data' \<Rightarrow>
     (case DataFrame [(''chat_history'', ListStruct (fst (expand l))),
                      (''document'', Utf8 (snd (expand l)))] of
        Inl e \<Rightarrow> Inl e
      | Inr temp' \<Rightarrow> Inr (augmented_data', temp', w')))))"

fun rounds ::
  "('m, 'b, 'h, 'w) collaborators \<Rightarrow> 'm KnowledgeParameter \<Rightarrow> nat \<Rightarrow> 'w loop_state
     \<Rightarrow> error + 'w loop_state" where
  "rounds c instruction 0 st = Inr st"
| "rounds c instruction (Suc n) st =
     (case round_step c instruction st of
        Inl e \<Rightarrow> Inl e
      | Inr st' \<Rightarrow> rounds c instruction n st')"

text \<open>
  \<open>range(max_conversations)\<close> is empty for a count that is zero or negative.
  The function returns the working set; the result set is dropped.
\<close>

definition pipeline_state ::
  "('m, 'b, 'h, 'w) collaborators \<Rightarrow> 'm KnowledgeParameter \<Rightarrow> 'w \<Rightarrow> error + 'w loop_state" where
  "pipeline_state c instruction w =
     (case seed_documents c instruction (documents instruction)
             empty_temproary_augmented_data w of
        Inl e \<Rightarrow> Inl e
      | Inr (temp, w1) \<Rightarrow>
          rounds c instruction (nat (max_conversations instruction))
            (empty_augmented_data, temp, w1))"

definition knowledge_pipeline ::
  "('m, 'b, 'h, 'w) collaborators \<Rightarrow> 'm KnowledgeParameter \<Rightarrow> 'w \<Rightarrow> error + dataframe \<times> 'w" where
  "knowledge_pipeline c instruction w =
     (case pipeline_state c instruction w of
        Inl e \<Rightarrow> Inl e
      | Inr (augmented_data, temproary_augmented_data, w') \<Rightarrow>
          Inr (temproary_augmented_data, w'))"

section \<open>Notions used to state the properties\<close>

subsection \<open>Tables, successors and loop states\<close>

text \<open>
  The two shapes of table the loop works with: the working set, with a chat history and a
  document per record, and a scored set, which has the responses and the score too (a
  scored frame is the same with any score column).
\<close>

definition working_set :: "chat_history list \<Rightarrow> string list \<Rightarrow> dataframe" where
  "working_set hs ds = [(''chat_history'', ListStruct hs), (''document'', Utf8 ds)]"

definition scored_frame ::
  "chat_history list \<Rightarrow> string list \<Rightarrow> string list \<Rightarrow> string list \<Rightarrow> series \<Rightarrow> dataframe" where
  "scored_frame hs ds srs lrs col =
     [(''chat_history'', ListStruct hs), (''document'', Utf8 ds),
      (''slm_response'', Utf8 srs), (''llm_response'', Utf8 lrs), (''scores'', col)]"

definition scored_set ::
  "chat_history list \<Rightarrow> string list \<Rightarrow> string list \<Rightarrow> string list \<Rightarrow> 64 word list
     \<Rightarrow> dataframe" where
  "scored_set hs ds srs lrs scs =
     [(''chat_history'', ListStruct hs), (''document'', Utf8 ds),
      (''slm_response'', Utf8 srs), (''llm_response'', Utf8 lrs), (''scores'', Int64 scs)]"

text \<open>The tuples Step 5 iterates over, and the two successors it makes of one tuple.\<close>

definition zipped ::
  "round_locals \<Rightarrow> (chat_history \<times> string \<times> string \<times> string \<times> string \<times> string \<times> string) list" where
  "zipped l = zip7 (chat_histories l) (slm_responses l) (llm_responses l)
                (slm_questions l) (llm_questions l) (slm_documents l) (llm_documents l)"

fun slm_successor ::
  "chat_history \<times> string \<times> string \<times> string \<times> string \<times> string \<times> string \<Rightarrow> chat_history" where
  "slm_successor (h, sr, lr, sq, lq, sd, ld) =
     h @ [\<lparr>role = ''assistant'', content = sr\<rparr>, \<lparr>role = ''user'', content = sq\<rparr>]"

fun llm_successor ::
  "chat_history \<times> string \<times> string \<times> string \<times> string \<times> string \<times> string \<Rightarrow> chat_history" where
  "llm_successor (h, sr, lr, sq, lq, sd, ld) =
     h @ [\<lparr>role = ''assistant'', content = lr\<rparr>, \<lparr>role = ''user'', content = lq\<rparr>]"

fun successor_histories ::
  "chat_history \<times> string \<times> string \<times> string \<times> string \<times> string \<times> string \<Rightarrow> chat_history list" where
  "successor_histories t = [slm_successor t, llm_successor t]"

fun successor_documents ::
  "chat_history \<times> string \<times> string \<times> string \<times> string \<times> string \<times> string \<Rightarrow> string list" where
  "successor_documents (h, sr, lr, sq, lq, sd, ld) = [sd, ld]"

text \<open>
  The state of the loop when \<open>k\<close> rounds are done, from the start of the run. A run with
  \<open>max_conversations = n\<close> passes through the states for \<open>k = 0, ..., n\<close>; no round
  reads \<open>max_conversations\<close>, so the state for \<open>k\<close> is the same in every run that gets
  that far.
\<close>

definition after_rounds ::
  "('m, 'b, 'h, 'w) collaborators \<Rightarrow> 'm KnowledgeParameter \<Rightarrow> 'w \<Rightarrow> nat \<Rightarrow> error + 'w loop_state" where
  "after_rounds c instruction w k =
     (case seed_documents c instruction (documents instruction)
             empty_temproary_augmented_data w of
        Inl e \<Rightarrow> Inl e
      | Inr (temp, w1) \<Rightarrow> rounds c instruction k (empty_augmented_data, temp, w1))"

text \<open>The shape the loop keeps: a scored result set and a working set, each of one height.\<close>

definition loop_inv :: "'w loop_state \<Rightarrow> bool" where
  "loop_inv st =
     (\<exists>A B C D E hs ds w.
        st = (scored_set A B C D E, working_set hs ds, w) \<and>
        length B = length A \<and> length C = length A \<and> length D = length A \<and>
        length E = length A \<and> length ds = length hs)"

subsection \<open>The sets of a run\<close>

text \<open>
  The first \<open>n\<close> rows of a table, and the table without them. For a run, the working
  set and the result set at the start of round \<open>k\<close>, and the scored working set that
  round \<open>k\<close> appends to the result set (each the empty table when the run does not get
  that far).
\<close>

fun series_take :: "nat \<Rightarrow> series \<Rightarrow> series" where
  "series_take n (ListStruct xs) = ListStruct (take n xs)"
| "series_take n (Utf8 xs) = Utf8 (take n xs)"
| "series_take n (Int64 xs) = Int64 (take n xs)"
| "series_take n (IntOther xs) = IntOther (take n xs)"

fun series_drop :: "nat \<Rightarrow> series \<Rightarrow> series" where
  "series_drop n (ListStruct xs) = ListStruct (drop n xs)"
| "series_drop n (Utf8 xs) = Utf8 (drop n xs)"
| "series_drop n (Int64 xs) = Int64 (drop n xs)"
| "series_drop n (IntOther xs) = IntOther (drop n xs)"

definition head_rows :: "nat \<Rightarrow> dataframe \<Rightarrow> dataframe" where
  "head_rows n df = map (\<lambda>c. (fst c, series_take n (snd c))) df"

definition tail_rows :: "nat \<Rightarrow> dataframe \<Rightarrow> dataframe" where
  "tail_rows n df = map (\<lambda>c. (fst c, series_drop n (snd c))) df"

definition working_set_at ::
  "('m, 'b, 'h, 'w) collaborators \<Rightarrow> 'm KnowledgeParameter \<Rightarrow> 'w \<Rightarrow> nat \<Rightarrow> dataframe" where
  "working_set_at c instruction w k =
     (case after_rounds c instruction w k of Inl e \<Rightarrow> [] | Inr (aug, temp, w') \<Rightarrow> temp)"

definition result_set_at ::
  "('m, 'b, 'h, 'w) collaborators \<Rightarrow> 'm KnowledgeParameter \<Rightarrow> 'w \<Rightarrow> nat \<Rightarrow> dataframe" where
  "result_set_at c instruction w k =
     (case after_rounds c instruction w k of Inl e \<Rightarrow> [] | Inr (aug, temp, w') \<Rightarrow> aug)"

definition scored_round ::
  "('m, 'b, 'h, 'w) collaborators \<Rightarrow> 'm KnowledgeParameter \<Rightarrow> 'w \<Rightarrow> nat \<Rightarrow> dataframe" where
  "scored_round c instruction w k =
     (case after_rounds c instruction w k of
        Inl e \<Rightarrow> []
      | Inr (aug, temp, w') \<Rightarrow>
          (case round_calls c instruction temp w' of
             Inl e \<Rightarrow> []
           | Inr (l, w'') \<Rightarrow> scored_data l))"

text \<open>
  The result set only grows at its end: \<open>b\<close> is \<open>a\<close> with more rows below.
\<close>

definition grown :: "dataframe \<Rightarrow> dataframe \<Rightarrow> bool" where
  "grown a b =
     (\<exists>A B C D E A' B' C' D' E'.
        a = scored_set A B C D E \<and> b = scored_set (A @ A') (B @ B') (C @ C') (D @ D') (E @ E') \<and>
        length B = length A \<and> length C = length A \<and> length D = length A \<and>
        length E = length A)"

subsection \<open>Recorded calls\<close>

text \<open>
  To observe which calls a run makes, the collaborators are wrapped: each wrapped call
  that returns appends its name and arguments to a log kept beside the world.
\<close>

datatype ('m, 'b, 'h) call =
    BuildKnowledgeInstruction string string
  | GenerateConversationStarter 'm int 'b "string option"
  | BuildChatHistories string "string list" "chat_history list"
  | GenerateConversationsResponse 'm "'h list"
  | ComparisonScore 'm "chat_history list" "string list" "string list"
  | GenerateNextConversation 'm "chat_history list" "string list" "string list" "string list"

definition record_call ::
  "'k \<Rightarrow> ('w \<Rightarrow> error + 'r \<times> 'w) \<Rightarrow> 'k list \<times> 'w \<Rightarrow> error + 'r \<times> 'k list \<times> 'w" where
  "record_call k f lw =
     (case f (snd lw) of Inl e \<Rightarrow> Inl e | Inr (r, w') \<Rightarrow> Inr (r, (fst lw @ [k], w')))"

definition recording ::
  "('m, 'b, 'h, 'w) collaborators \<Rightarrow> ('m, 'b, 'h, ('m, 'b, 'h) call list \<times> 'w) collaborators" where
  "recording c =
     \<lparr>build_knowledge_instruction =
        (\<lambda>i d. record_call (BuildKnowledgeInstruction i d) (build_knowledge_instruction c i d)),
      generate_conversation_starter =
        (\<lambda>m n b sp. record_call (GenerateConversationStarter m n b sp)
                       (generate_conversation_starter c m n b sp)),
      build_chat_histories =
        (\<lambda>i ds hs. record_call (BuildChatHistories i ds hs) (build_chat_histories c i ds hs)),
      generate_conversations_response =
        (\<lambda>m bs. record_call (GenerateConversationsResponse m bs)
                    (generate_conversations_response c m bs)),
      comparison_score =
        (\<lambda>m hs lrs srs. record_call (ComparisonScore m hs lrs srs)
                           (comparison_score c m hs lrs srs)),
      generate_next_conversation =
        (\<lambda>m hs rs ds bank. record_call (GenerateNextConversation m hs rs ds bank)
                              (generate_next_conversation c m hs rs ds bank))\<rparr>"

subsection \<open>Collaborators for the examples\<close>

text \<open>
  A deterministic set of collaborators: the model handles are their names, the world counts
  the calls. A starter history is one user turn; a response is the name of the model that
  answers; a follow-up question is the name of the model that asks; the new grounding
  document is the first document of the bank.
\<close>

definition stub :: "(string, string, string, nat) collaborators" where
  "stub =
     \<lparr>build_knowledge_instruction = (\<lambda>instr doc w. Inr (instr @ doc, Suc w)),
      generate_conversation_starter =
        (\<lambda>m n b sp w. Inr (replicate (nat n) [\<lparr>role = ''user'', content = b\<rparr>], Suc w)),
      build_chat_histories = (\<lambda>instr docs hs w. Inr (docs, Suc w)),
      generate_conversations_response = (\<lambda>m built w. Inr (map (\<lambda>b. m) built, Suc w)),
      comparison_score = (\<lambda>m hs lrs srs w. Inr (map (\<lambda>h. int (length h)) hs, Suc w)),
      generate_next_conversation =
        (\<lambda>m hs rs ds bank w.
           Inr ((map (\<lambda>h. m) hs, map (\<lambda>h. case bank of [] \<Rightarrow> [] | b # _ \<Rightarrow> b) hs), Suc w))\<rparr>"

definition example_instruction :: "string KnowledgeParameter" where
  "example_instruction =
     \<lparr>documents = [''doc1''],
      conversation_starter_instruction = ''ask '',
      conversation_personalization_instruction = ''persona'',
      conversation_starter_count = 1,
      max_conversations = 1,
      slm_model = ''slm'',
      llm_model = ''llm''\<rparr>"

definition example_starter :: chat_history where
  "example_starter = [\<lparr>role = ''user'', content = ''ask doc1''\<rparr>]"

definition example_locals :: round_locals where
  "example_locals =
     \<lparr>scored_data = scored_set [example_starter] [''doc1''] [''slm''] [''llm''] [1],
      chat_histories = [example_starter],
      slm_responses = [''slm''], llm_responses = [''llm''], scores = [1],
      slm_questions = [''llm''], slm_documents = [''doc1''],
      llm_questions = [''slm''], llm_documents = [''doc1'']\<rparr>"

definition example_successors :: "chat_history list" where
  "example_successors =
     [example_starter @ [\<lparr>role = ''assistant'', content = ''slm''\<rparr>,
                         \<lparr>role = ''user'', content = ''llm''\<rparr>],
      example_starter @ [\<lparr>role = ''assistant'', content = ''llm''\<rparr>,
                         \<lparr>role = ''user'', content = ''slm''\<rparr>]]"

text \<open>The locals of the second round of the example run, on its two-record working set.\<close>

definition example_locals_1 :: round_locals where
  "example_locals_1 =
     \<lparr>scored_data =
        scored_set example_successors [''doc1'', ''doc1''] [''slm'', ''slm''] [''llm'', ''llm'']
          [3, 3],
      chat_histories = example_successors,
      slm_responses = [''slm'', ''slm''], llm_responses = [''llm'', ''llm''], scores = [3, 3],
      slm_questions = [''llm'', ''llm''], slm_documents = [''doc1'', ''doc1''],
      llm_questions = [''slm'', ''slm''], llm_documents = [''doc1'', ''doc1'']\<rparr>"

text \<open>
  Two sets of collaborators whose continuation expander breaks the alignment: one proposes
  nothing at all, the other answers for the first conversation of the batch only. And an
  instruction with an empty document bank.
\<close>

definition silent_expander :: "(string, string, string, nat) collaborators" where
  "silent_expander =
     stub\<lparr>generate_next_conversation := (\<lambda>m hs rs ds bank w. Inr (([], []), Suc w))\<rparr>"

definition short_expander :: "(string, string, string, nat) collaborators" where
  "short_expander =
     stub\<lparr>generate_next_conversation :=
            (\<lambda>m hs rs ds bank w.
               Inr ((take 1 (map (\<lambda>h. m) hs),
                     take 1 (map (\<lambda>h. case bank of [] \<Rightarrow> [] | b # _ \<Rightarrow> b) hs)), Suc w))\<rparr>"

definition short_locals_1 :: round_locals where
  "short_locals_1 =
     example_locals_1\<lparr>slm_questions := [''llm''], slm_documents := [''doc1''],
                       llm_questions := [''slm''], llm_documents := [''doc1'']\<rparr>"

definition empty_bank_instruction :: "string KnowledgeParameter" where
  "empty_bank_instruction = example_instruction\<lparr>documents := []\<rparr>"

text \<open>The example instruction with no round to run.\<close>

definition no_round_instruction :: "string KnowledgeParameter" where
  "no_round_instruction = example_instruction\<lparr>max_conversations := 0\<rparr>"

section \<open>Facts about the table operations\<close>

lemma height_working_set [simp]: "height (working_set hs ds) = length hs"
  by (simp add: working_set_def height_def)

lemma height_scored_set [simp]: "height (scored_set hs ds a b s) = length hs"
  by (simp add: scored_set_def height_def)

lemma lists_working_set [simp]:
  "chat_history_list (working_set hs ds) ''chat_history'' = Inr hs"
  "text_list (working_set hs ds) ''document'' = Inr ds"
  by (simp_all add: working_set_def chat_history_list_def text_list_def)

lemma lists_scored_set [simp]:
  "chat_history_list (scored_set hs ds a b s) ''chat_history'' = Inr hs"
  "text_list (scored_set hs ds a b s) ''document'' = Inr ds"
  by (simp_all add: scored_set_def chat_history_list_def text_list_def)

lemma series_len_int_series [simp]: "series_len (int_series xs) = length xs"
  by (simp add: int_series_def)

lemma scored_set_frame: "scored_set hs ds a b s = scored_frame hs ds a b (Int64 s)"
  by (simp add: scored_set_def scored_frame_def)

lemma lists_scored_frame [simp]:
  "chat_history_list (scored_frame hs ds a b col) ''chat_history'' = Inr hs"
  "text_list (scored_frame hs ds a b col) ''document'' = Inr ds"
  by (simp_all add: scored_frame_def chat_history_list_def text_list_def)

lemma with_responses:
  "with_columns (working_set hs ds) [(''slm_response'', Utf8 a), (''llm_response'', Utf8 b)] =
     (if length a = length hs \<and> length b = length hs
      then Inr [(''chat_history'', ListStruct hs), (''document'', Utf8 ds),
                (''slm_response'', Utf8 a), (''llm_response'', Utf8 b)]
      else if (length a \<noteq> length hs \<and> length a = 1) \<or> (length b \<noteq> length hs \<and> length b = 1)
      then Inl InvalidOperationError
      else Inl ShapeError)"
  by (auto simp: with_columns_def working_set_def height_def Let_def)

lemma with_scores:
  "with_columns [(''chat_history'', ListStruct hs), (''document'', Utf8 ds),
                 (''slm_response'', Utf8 a), (''llm_response'', Utf8 b)]
     [(''scores'', int_series s)] =
     (if length s = length hs then Inr (scored_frame hs ds a b (int_series s))
      else if length s = 1 then Inl InvalidOperationError
      else Inl ShapeError)"
  by (simp add: with_columns_def scored_frame_def height_def Let_def)

lemma lists_responded [simp]:
  "chat_history_list [(''chat_history'', ListStruct hs), (''document'', Utf8 ds),
                      (''slm_response'', Utf8 a), (''llm_response'', Utf8 b)] ''chat_history''
     = Inr hs"
  by (simp add: chat_history_list_def)

lemma vstack_scored:
  "vstack (scored_set A B C D E) (scored_set hs ds a b s) =
     Inr (scored_set (A @ hs) (B @ ds) (C @ a) (D @ b) (E @ s))"
  by (simp add: vstack_def scored_set_def columns_def)

lemma vstack_scored_frame:
  "vstack (scored_set A B C D E) (scored_frame hs ds a b (int_series s)) =
     (if list_all int64 s
      then Inr (scored_set (A @ hs) (B @ ds) (C @ a) (D @ b) (E @ map word_of_int s))
      else Inl SchemaError)"
  by (simp add: vstack_def scored_set_def scored_frame_def columns_def int_series_def)

lemma vstack_working:
  "vstack (working_set A B) (working_set hs ds) = Inr (working_set (A @ hs) (B @ ds))"
  by (simp add: vstack_def working_set_def columns_def)

lemma empty_frames:
  "empty_temproary_augmented_data = working_set [] []"
  "empty_augmented_data = scored_set [] [] [] [] []"
  by (simp_all add: empty_temproary_augmented_data_def empty_augmented_data_def
      working_set_def scored_set_def)

section \<open>One round on a working set\<close>

text \<open>
  On a working set the table operations of Steps 2 to 4 reduce to two length checks; what
  is left is the sequence of the six collaborator calls.
\<close>

lemma round_calls_working_set:
  "round_calls c p (working_set hs ds) w =
     (case build_chat_histories c (conversation_personalization_instruction p) ds hs w of
        Inl e \<Rightarrow> Inl e | Inr (built, w1) \<Rightarrow>
     (case generate_conversations_response c (slm_model p) built w1 of
        Inl e \<Rightarrow> Inl e | Inr (slm_rs, w2) \<Rightarrow>
     (case generate_conversations_response c (llm_model p) built w2 of
        Inl e \<Rightarrow> Inl e | Inr (llm_rs, w3) \<Rightarrow>
     if length slm_rs \<noteq> length hs \<or> length llm_rs \<noteq> length hs
     then (if (length slm_rs \<noteq> length hs \<and> length slm_rs = 1) \<or>
              (length llm_rs \<noteq> length hs \<and> length llm_rs = 1)
           then Inl InvalidOperationError else Inl ShapeError)
     else
     (case comparison_score c (llm_model p) hs llm_rs slm_rs w3 of
        Inl e \<Rightarrow> Inl e | Inr (scs, w4) \<Rightarrow>
     if length scs \<noteq> length hs
     then (if length scs = 1 then Inl InvalidOperationError else Inl ShapeError)
     else
     (case generate_next_conversation c (llm_model p) hs slm_rs ds (documents p) w4 of
        Inl e \<Rightarrow> Inl e | Inr ((slm_qs, slm_ds), w5) \<Rightarrow>
     (case generate_next_conversation c (slm_model p) hs slm_rs ds (documents p) w5 of
        Inl e \<Rightarrow> Inl e | Inr ((llm_qs, llm_ds), w6) \<Rightarrow>
        Inr (\<lparr>scored_data = scored_frame hs ds slm_rs llm_rs (int_series scs),
                chat_histories = hs,
                slm_responses = slm_rs, llm_responses = llm_rs, scores = scs,
                slm_questions = slm_qs, slm_documents = slm_ds,
                llm_questions = llm_qs, llm_documents = llm_ds\<rparr>, w6)))))))"
  by (simp add: round_calls_def with_responses with_scores split: sum.splits prod.splits)

lemma round_calls_scored:
  assumes "round_calls c p (working_set hs ds) w = Inr (l, w')"
  shows "scored_data l =
           scored_frame hs ds (slm_responses l) (llm_responses l) (int_series (scores l))
           \<and> length (scores l) = length hs \<and> length (slm_responses l) = length hs
           \<and> length (llm_responses l) = length hs \<and> chat_histories l = hs"
  using assms unfolding round_calls_working_set
  by (auto split: sum.splits prod.splits if_splits)

subsection \<open>The expansion as a concatenation\<close>

lemma foldl_expand_step:
  "foldl expand_step (gh, gd) ts =
     (gh @ concat (map successor_histories ts), gd @ concat (map successor_documents ts))"
  by (induction ts arbitrary: gh gd) auto

lemma expand_eq:
  "expand l =
     (concat (map successor_histories (zipped l)), concat (map successor_documents (zipped l)))"
  by (simp add: expand_def zipped_def foldl_expand_step)

lemma length_concat_pairs:
  "(\<And>t. length (f t) = 2) \<Longrightarrow> length (concat (map f ts)) = 2 * length ts"
  by (induction ts) auto

lemma length_successor_documents [simp]: "length (successor_documents t) = 2"
  by (cases t rule: successor_documents.cases) simp

lemma length_expand:
  "length (fst (expand l)) = 2 * length (zipped l)"
  "length (snd (expand l)) = 2 * length (zipped l)"
  by (simp_all add: expand_eq length_concat_pairs)


lemma nth_concat_pairs:
  assumes "\<And>t. f t = [g t, h t]" and "i < length ts"
  shows "concat (map f ts) ! (2 * i) = g (ts ! i) \<and> concat (map f ts) ! (2 * i + 1) = h (ts ! i)"
  using assms(2)
proof (induction ts arbitrary: i)
  case Nil
  then show ?case by simp
next
  case (Cons t ts)
  show ?case
  proof (cases i)
    case 0
    then show ?thesis by (simp add: assms(1))
  next
    case (Suc n)
    with Cons.prems have "n < length ts" by simp
    from Cons.IH [OF this] Suc show ?thesis by (simp add: assms(1))
  qed
qed

lemma nth_zipped:
  assumes "i < length (zipped l)"
  shows "zipped l ! i =
     (chat_histories l ! i, slm_responses l ! i, llm_responses l ! i,
      slm_questions l ! i, llm_questions l ! i, slm_documents l ! i, llm_documents l ! i)"
  using assms by (simp add: zipped_def zip7_def)

lemma successor_documents_eq:
  "successor_documents t =
     [fst (snd (snd (snd (snd (snd t))))), snd (snd (snd (snd (snd (snd t)))))]"
  by (cases t rule: successor_documents.cases) simp

lemma expand_nth:
  assumes "i < length (zipped l)"
  shows "fst (expand l) ! (2 * i) =
           chat_histories l ! i @ [\<lparr>role = ''assistant'', content = slm_responses l ! i\<rparr>,
                                   \<lparr>role = ''user'', content = slm_questions l ! i\<rparr>]"
    and "fst (expand l) ! (2 * i + 1) =
           chat_histories l ! i @ [\<lparr>role = ''assistant'', content = llm_responses l ! i\<rparr>,
                                   \<lparr>role = ''user'', content = llm_questions l ! i\<rparr>]"
    and "snd (expand l) ! (2 * i) = slm_documents l ! i"
    and "snd (expand l) ! (2 * i + 1) = llm_documents l ! i"
  using nth_concat_pairs [of successor_histories slm_successor llm_successor i "zipped l",
      OF successor_histories.simps assms]
    nth_concat_pairs [OF successor_documents_eq assms]
  by (simp_all add: expand_eq nth_zipped [OF assms])

lemma expand_parent:
  assumes "j < length (fst (expand l))"
  shows "j div 2 < length (chat_histories l) \<and>
         (\<exists>a q. fst (expand l) ! j =
            chat_histories l ! (j div 2) @ [\<lparr>role = ''assistant'', content = a\<rparr>,
                                            \<lparr>role = ''user'', content = q\<rparr>])"
proof -
  from assms have i: "j div 2 < length (zipped l)"
    by (simp add: length_expand)
  then have "j div 2 < length (chat_histories l)"
    by (simp add: zipped_def zip7_def)
  moreover have "j = 2 * (j div 2) \<or> j = 2 * (j div 2) + 1" by presburger
  then have "\<exists>a q. fst (expand l) ! j =
            chat_histories l ! (j div 2) @ [\<lparr>role = ''assistant'', content = a\<rparr>,
                                            \<lparr>role = ''user'', content = q\<rparr>]"
  proof
    assume "j = 2 * (j div 2)"
    with expand_nth(1) [OF i] show ?thesis by metis
  next
    assume "j = 2 * (j div 2) + 1"
    with expand_nth(2) [OF i] show ?thesis by metis
  qed
  ultimately show ?thesis by blast
qed

lemma DataFrame_expand:
  "DataFrame [(''chat_history'', ListStruct (fst (expand l))), (''document'', Utf8 (snd (expand l)))]
     = Inr (working_set (fst (expand l)) (snd (expand l)))"
  by (simp add: DataFrame_def height_def length_expand working_set_def)

subsection \<open>The round\<close>

text \<open>
  A round whose calls return ends in one of two ways: with scores that fit in 64 bits the
  scored set is stacked under the result set and the round returns; with any other score
  the stack of line 132 is refused.
\<close>

lemma round_step_eq:
  assumes "round_calls c p (working_set hs ds) w = Inr (l, w')"
  shows "round_step c p (scored_set A B C D E, working_set hs ds, w) =
           (if list_all int64 (scores l)
            then Inr (scored_set (A @ hs) (B @ ds) (C @ slm_responses l) (D @ llm_responses l)
                        (E @ map word_of_int (scores l)),
                      working_set (fst (expand l)) (snd (expand l)), w')
            else Inl SchemaError)"
proof -
  from round_calls_scored [OF assms] have
    "scored_data l =
       scored_frame hs ds (slm_responses l) (llm_responses l) (int_series (scores l))"
    by simp
  with assms show ?thesis
    by (simp add: round_step_def vstack_scored_frame DataFrame_expand)
qed

lemma round_step_working_set:
  assumes "round_calls c p (working_set hs ds) w = Inr (l, w')"
    and "list_all int64 (scores l)"
  shows "\<exists>scs. length scs = length hs \<and>
           scored_data l = scored_set hs ds (slm_responses l) (llm_responses l) scs \<and>
           round_step c p (scored_set A B C D E, working_set hs ds, w) =
           Inr (scored_set (A @ hs) (B @ ds) (C @ slm_responses l) (D @ llm_responses l)
                  (E @ scs),
                working_set (fst (expand l)) (snd (expand l)), w')"
proof -
  from round_calls_scored [OF assms(1)] assms(2) have
    "length (map word_of_int (scores l) :: 64 word list) = length hs"
    "scored_data l =
       scored_set hs ds (slm_responses l) (llm_responses l) (map word_of_int (scores l))"
    by (simp_all add: scored_set_frame int_series_def)
  moreover have "round_step c p (scored_set A B C D E, working_set hs ds, w) =
           Inr (scored_set (A @ hs) (B @ ds) (C @ slm_responses l) (D @ llm_responses l)
                  (E @ map word_of_int (scores l)),
                working_set (fst (expand l)) (snd (expand l)), w')"
    using assms(2) by (simp add: round_step_eq [OF assms(1)])
  ultimately show ?thesis
    by (intro exI [of _ "map word_of_int (scores l)"] conjI)
qed

lemma round_step_Inr:
  assumes "round_step c p (scored_set A B C D E, working_set hs ds, w) = Inr (aug', temp', w')"
  shows "\<exists>l. round_calls c p (working_set hs ds) w = Inr (l, w') \<and>
             temp' = working_set (fst (expand l)) (snd (expand l)) \<and>
             list_all int64 (scores l)"
proof -
  from assms obtain l :: round_locals and w'' where
    rc: "round_calls c p (working_set hs ds) w = Inr (l, w'')"
    by (auto simp: round_step_def split: sum.splits prod.splits)
  from assms have "list_all int64 (scores l)"
    "temp' = working_set (fst (expand l)) (snd (expand l))" "w'' = w'"
    unfolding round_step_eq [OF rc] by (simp_all split: if_splits)
  with rc show ?thesis by (intro exI [of _ l]) simp
qed

lemma loop_inv_round_step:
  assumes "loop_inv st" and "round_step c p st = Inr st'"
  shows "loop_inv st'"
proof -
  from assms(1) obtain A B C D E hs ds w where
    st: "st = (scored_set A B C D E, working_set hs ds, w)" and
    len: "length B = length A" "length C = length A" "length D = length A"
         "length E = length A" "length ds = length hs"
    unfolding loop_inv_def by blast
  obtain aug' temp' w' where st': "st' = (aug', temp', w')" by (cases st') auto
  from round_step_Inr [of c p A B C D E hs ds w aug' temp' w'] assms(2) st st'
  obtain l :: round_locals where
    l: "round_calls c p (working_set hs ds) w = Inr (l, w')" "list_all int64 (scores l)"
    by auto
  from round_step_working_set [OF l, of A B C D E] obtain scs where
    sc: "length scs = length hs"
        "round_step c p st =
           Inr (scored_set (A @ hs) (B @ ds) (C @ slm_responses l) (D @ llm_responses l)
                  (E @ scs),
                working_set (fst (expand l)) (snd (expand l)), w')"
    unfolding st by blast
  from round_calls_scored [OF l(1)] have rl:
    "length (slm_responses l) = length hs" "length (llm_responses l) = length hs" by auto
  from sc(2) assms(2) have
    "st' = (scored_set (A @ hs) (B @ ds) (C @ slm_responses l) (D @ llm_responses l)
              (E @ scs),
            working_set (fst (expand l)) (snd (expand l)), w')"
    by simp
  moreover have "length (B @ ds) = length (A @ hs)"
    "length (C @ slm_responses l) = length (A @ hs)"
    "length (D @ llm_responses l) = length (A @ hs)"
    "length (E @ scs) = length (A @ hs)"
    "length (snd (expand l)) = length (fst (expand l))"
    using len rl sc(1) by (simp_all add: length_expand)
  ultimately show ?thesis
    unfolding loop_inv_def by blast
qed

lemma loop_inv_rounds:
  "loop_inv st \<Longrightarrow> rounds c p k st = Inr st' \<Longrightarrow> loop_inv st'"
proof (induction k arbitrary: st)
  case 0
  then show ?case by simp
next
  case (Suc k)
  then show ?case
    by (auto split: sum.splits dest: loop_inv_round_step)
qed

subsection \<open>The seeding step\<close>

lemma seed_documents_working_set:
  assumes "seed_documents c p docs (working_set hs ds) w = Inr (temp, w')"
    and "length ds = length hs"
  shows "\<exists>hs' ds'. temp = working_set hs' ds' \<and> length ds' = length hs' \<and>
           set ds' \<subseteq> set ds \<union> set docs"
  using assms
proof (induction docs arbitrary: hs ds w)
  case Nil
  then show ?case by auto
next
  case (Cons d docs)
  from Cons.prems(1) obtain b w1 chs w2 where
    calls: "build_knowledge_instruction c (conversation_starter_instruction p) d w = Inr (b, w1)"
      "generate_conversation_starter c (llm_model p) (conversation_starter_count p) b None w1
         = Inr (chs, w2)"
    by (auto split: sum.splits prod.splits)
  have df: "DataFrame [(''chat_history'', ListStruct chs),
              (''document'', Utf8 (replicate (length chs) d))]
            = Inr (working_set chs (replicate (length chs) d))"
    by (simp add: DataFrame_def height_def working_set_def)
  from Cons.prems(1) calls df have
    rest: "seed_documents c p docs (working_set (hs @ chs) (ds @ replicate (length chs) d)) w2
             = Inr (temp, w')"
    by (simp add: vstack_working)
  from Cons.IH [OF rest] Cons.prems(2) obtain hs' ds' where
    r: "temp = working_set hs' ds'" "length ds' = length hs'"
       "set ds' \<subseteq> set (ds @ replicate (length chs) d) \<union> set docs"
    by auto
  have "set (replicate (length chs) d) \<subseteq> {d}" by auto
  with r(3) have "set ds' \<subseteq> set ds \<union> set (d # docs)" by auto
  with r(1,2) show ?case by blast
qed

lemma after_rounds_inv:
  assumes "after_rounds c p w k = Inr st"
  shows "loop_inv st"
proof -
  from assms obtain temp w1 where
    seed: "seed_documents c p (documents p) (working_set [] []) w = Inr (temp, w1)" and
    r: "rounds c p k (scored_set [] [] [] [] [], temp, w1) = Inr st"
    by (auto simp: after_rounds_def empty_frames split: sum.splits prod.splits)
  from seed_documents_working_set [OF seed] obtain hs ds where
    "temp = working_set hs ds" "length ds = length hs" by auto
  then have "(scored_set [] [] [] [] [], temp, w1) =
      (scored_set [] [] [] [] [], working_set hs ds, w1) \<and>
      length ([]::string list) = length ([]::chat_history list) \<and>
      length ([]::string list) = length ([]::chat_history list) \<and>
      length ([]::string list) = length ([]::chat_history list) \<and>
      length ([]::64 word list) = length ([]::chat_history list) \<and> length ds = length hs"
    by simp
  then have "loop_inv (scored_set [] [] [] [] [], temp, w1)"
    unfolding loop_inv_def by blast
  from loop_inv_rounds [OF this r] show ?thesis .
qed

lemma after_rounds_shape:
  assumes "after_rounds c p w k = Inr (aug, temp, w1)"
  obtains A B C D E hs ds where
    "aug = scored_set A B C D E" "temp = working_set hs ds" "length ds = length hs"
    "length B = length A" "length C = length A" "length D = length A" "length E = length A"
  using after_rounds_inv [OF assms] unfolding loop_inv_def by auto

lemma rounds_Suc_last:
  "rounds c p (Suc k) st =
     (case rounds c p k st of Inl e \<Rightarrow> Inl e | Inr st' \<Rightarrow> round_step c p st')"
proof (induction k arbitrary: st)
  case 0
  show ?case by (simp split: sum.splits)
next
  case (Suc k)
  show ?case
  proof (cases "round_step c p st")
    case (Inl e)
    then show ?thesis by simp
  next
    case (Inr s1)
    then have "rounds c p (Suc (Suc k)) st = rounds c p (Suc k) s1" by simp
    also have "\<dots> = (case rounds c p k s1 of Inl e \<Rightarrow> Inl e | Inr st' \<Rightarrow> round_step c p st')"
      by (rule Suc.IH)
    also have "rounds c p k s1 = rounds c p (Suc k) st"
      using Inr by simp
    finally show ?thesis .
  qed
qed

lemma after_rounds_Suc:
  "after_rounds c p w (Suc k) =
     (case after_rounds c p w k of Inl e \<Rightarrow> Inl e | Inr st \<Rightarrow> round_step c p st)"
  unfolding after_rounds_def
  by (simp only: rounds_Suc_last split: sum.splits prod.splits) simp

subsection \<open>The example run\<close>

lemma stub_simps [simp]:
  "build_knowledge_instruction stub instr doc w = Inr (instr @ doc, Suc w)"
  "generate_conversation_starter stub m n b sp w =
     Inr (replicate (nat n) [\<lparr>role = ''user'', content = b\<rparr>], Suc w)"
  "build_chat_histories stub instr docs hs w = Inr (docs, Suc w)"
  "generate_conversations_response stub m built w = Inr (map (\<lambda>b. m) built, Suc w)"
  "comparison_score stub m hs lrs srs w = Inr (map (\<lambda>h. int (length h)) hs, Suc w)"
  "generate_next_conversation stub m hs rs ds bank w =
     Inr ((map (\<lambda>h. m) hs, map (\<lambda>h. case bank of [] \<Rightarrow> [] | b # _ \<Rightarrow> b) hs), Suc w)"
  by (simp_all add: stub_def)

lemma example_instruction_simps [simp]:
  "documents example_instruction = [''doc1'']"
  "conversation_starter_instruction example_instruction = ''ask ''"
  "conversation_personalization_instruction example_instruction = ''persona''"
  "conversation_starter_count example_instruction = 1"
  "max_conversations example_instruction = 1"
  "slm_model example_instruction = ''slm''"
  "llm_model example_instruction = ''llm''"
  by (simp_all add: example_instruction_def)

lemma example_seed:
  "after_rounds stub example_instruction 0 0 =
     Inr (empty_augmented_data, working_set [example_starter] [''doc1''], 2)"
  by (simp add: after_rounds_def empty_temproary_augmented_data_def DataFrame_def height_def
      vstack_def columns_def working_set_def example_starter_def)

lemma int64_small [simp]: "int64 1" "int64 3"
  by (simp_all add: int64_def)

lemma example_locals_simps [simp]:
  "scored_data example_locals = scored_set [example_starter] [''doc1''] [''slm''] [''llm''] [1]"
  "chat_histories example_locals = [example_starter]"
  "slm_responses example_locals = [''slm'']"
  "llm_responses example_locals = [''llm'']"
  "scores example_locals = [1]"
  "slm_questions example_locals = [''llm'']"
  "slm_documents example_locals = [''doc1'']"
  "llm_questions example_locals = [''slm'']"
  "llm_documents example_locals = [''doc1'']"
  by (simp_all add: example_locals_def)

lemma example_calls:
  "round_calls stub example_instruction (working_set [example_starter] [''doc1'']) 2 =
     Inr (example_locals, 8)"
  by (simp add: round_calls_working_set example_locals_def example_starter_def
      scored_set_frame int_series_def)

lemma example_expand:
  "expand example_locals = (example_successors, [''doc1'', ''doc1''])"
  by (simp add: expand_def zip7_def example_successors_def)

lemma example_step:
  "round_step stub example_instruction
     (empty_augmented_data, working_set [example_starter] [''doc1''], 2) =
   Inr (scored_set [example_starter] [''doc1''] [''slm''] [''llm''] [1],
        working_set example_successors [''doc1'', ''doc1''], 8)"
  by (simp add: empty_frames round_step_eq [OF example_calls] example_expand)

lemma example_first_round:
  "after_rounds stub example_instruction 0 1 =
     Inr (scored_set [example_starter] [''doc1''] [''slm''] [''llm''] [1],
          working_set example_successors [''doc1'', ''doc1''], 8)"
  using after_rounds_Suc [of stub example_instruction 0 0]
  by (simp add: example_seed example_step)

lemma length_example_successors [simp]: "length example_successors = 2"
  by (simp add: example_successors_def)

lemma example_locals_1_simps [simp]:
  "scored_data example_locals_1 =
     scored_set example_successors [''doc1'', ''doc1''] [''slm'', ''slm''] [''llm'', ''llm'']
       [3, 3]"
  "chat_histories example_locals_1 = example_successors"
  "slm_responses example_locals_1 = [''slm'', ''slm'']"
  "llm_responses example_locals_1 = [''llm'', ''llm'']"
  "scores example_locals_1 = [3, 3]"
  "slm_questions example_locals_1 = [''llm'', ''llm'']"
  "slm_documents example_locals_1 = [''doc1'', ''doc1'']"
  "llm_questions example_locals_1 = [''slm'', ''slm'']"
  "llm_documents example_locals_1 = [''doc1'', ''doc1'']"
  by (simp_all add: example_locals_1_def)

lemma example_calls_1:
  "round_calls stub example_instruction
     (working_set example_successors [''doc1'', ''doc1'']) 8 = Inr (example_locals_1, 14)"
  by (simp add: round_calls_working_set example_locals_1_def example_successors_def
      example_starter_def scored_set_frame int_series_def)

section \<open>The round: size, successors and their order\<close>

lemma round_step_returns:
  assumes "round_calls c p (working_set hs ds) w = Inr (l, w')"
    and "list_all int64 (scores l)"
  obtains aug' where
    "round_step c p (scored_set A B C D E, working_set hs ds, w) =
       Inr (aug', working_set (fst (expand l)) (snd (expand l)), w')"
  using round_step_eq [OF assms(1), of A B C D E] assms(2) by simp

lemma roles_of_appended_turns:
  "map role (drop (length h)
     (h @ [\<lparr>role = ''assistant'', content = a\<rparr>, \<lparr>role = ''user'', content = q\<rparr>]))
     = [''assistant'', ''user'']"
  by simp

text \<open>
  Claim C3. In every round of a run: when the collaborator calls of the round return, every
  array they return (the two response arrays, the scores, and the questions and documents
  of the two continuation calls) has the size of the working set, and the scores fit in
  the 64-bit column of the result set, then the round returns and the new working set is
  exactly twice as high as the old one.
\<close>

theorem expansion_doubles_working_set:
  assumes "after_rounds c p w k = Inr (aug, temp, w1)"
    and "round_calls c p temp w1 = Inr (l, w2)"
    and "length (slm_responses l) = height temp"
    and "length (llm_responses l) = height temp"
    and "length (scores l) = height temp"
    and "length (slm_questions l) = height temp"
    and "length (slm_documents l) = height temp"
    and "length (llm_questions l) = height temp"
    and "length (llm_documents l) = height temp"
    and "list_all int64 (scores l)"
  shows "\<exists>aug' temp'. round_step c p (aug, temp, w1) = Inr (aug', temp', w2) \<and>
           height temp' = 2 * height temp"
proof -
  from after_rounds_inv [OF assms(1)] obtain A B C D E hs ds where
    sh: "aug = scored_set A B C D E" "temp = working_set hs ds"
    unfolding loop_inv_def by auto
  from assms(2) have calls: "round_calls c p (working_set hs ds) w1 = Inr (l, w2)"
    by (simp only: sh)
  from round_calls_scored [OF calls] have hs: "chat_histories l = hs"
    by simp
  have ht: "height temp = length hs"
    by (simp add: sh(2))
  from assms(3,4,6-9) hs have "length (zipped l) = length hs"
    unfolding ht by (simp add: zipped_def zip7_def)
  then have h2: "height (working_set (fst (expand l)) (snd (expand l))) = 2 * height temp"
    by (simp add: length_expand ht)
  from round_step_returns [OF calls assms(10), of A B C D E] obtain aug' where
    "round_step c p (aug, temp, w1) =
       Inr (aug', working_set (fst (expand l)) (snd (expand l)), w2)"
    unfolding sh by auto
  with h2 show ?thesis by (intro exI conjI)
qed

theorem expansion_doubles_working_set_witness:
  "\<exists>aug' temp'.
     round_step stub example_instruction
       (scored_set [example_starter] [''doc1''] [''slm''] [''llm''] [1],
        working_set example_successors [''doc1'', ''doc1''], 8)
       = Inr (aug', temp', 14) \<and>
     height temp' = 2 * height (working_set example_successors [''doc1'', ''doc1''])"
  by (rule expansion_doubles_working_set [OF example_first_round example_calls_1]) simp_all

text \<open>
  Claim C4. In every round in which the continuation expander answers for every
  conversation (its four arrays have the size of the working set) and the scores fit in 64
  bits, the round returns and every conversation \<open>i\<close> of the working set has its two
  successors in the new working set, at \<open>2 * i\<close> and \<open>2 * i + 1\<close>: each is the chat
  history of the conversation followed by exactly two turns, an \<open>assistant\<close> turn with
  the response (of the SLM, of the LLM) and then a \<open>user\<close> turn with the follow-up
  question of that track. So each successor is longer than its parent by exactly 2, and the
  two appended turns have the roles \<open>assistant\<close>, \<open>user\<close> in this order.
\<close>

theorem successors_extend_parent:
  assumes "after_rounds c p w k = Inr (aug, temp, w1)"
    and "round_calls c p temp w1 = Inr (l, w2)"
    and "length (slm_questions l) = height temp"
    and "length (slm_documents l) = height temp"
    and "length (llm_questions l) = height temp"
    and "length (llm_documents l) = height temp"
    and "list_all int64 (scores l)"
  shows "\<exists>aug' temp' hs hs'.
           round_step c p (aug, temp, w1) = Inr (aug', temp', w2) \<and>
           chat_history_list temp ''chat_history'' = Inr hs \<and>
           chat_history_list temp' ''chat_history'' = Inr hs' \<and>
           length hs = height temp \<and> length hs' = 2 * length hs \<and>
           (\<forall>i < length hs.
              hs' ! (2 * i) =
                hs ! i @ [\<lparr>role = ''assistant'', content = slm_responses l ! i\<rparr>,
                          \<lparr>role = ''user'', content = slm_questions l ! i\<rparr>] \<and>
              hs' ! (2 * i + 1) =
                hs ! i @ [\<lparr>role = ''assistant'', content = llm_responses l ! i\<rparr>,
                          \<lparr>role = ''user'', content = llm_questions l ! i\<rparr>] \<and>
              length (hs' ! (2 * i)) = length (hs ! i) + 2 \<and>
              length (hs' ! (2 * i + 1)) = length (hs ! i) + 2 \<and>
              map role (drop (length (hs ! i)) (hs' ! (2 * i))) = [''assistant'', ''user''] \<and>
              map role (drop (length (hs ! i)) (hs' ! (2 * i + 1))) = [''assistant'', ''user''])"
proof -
  from after_rounds_inv [OF assms(1)] obtain A B C D E hs ds where
    sh: "aug = scored_set A B C D E" "temp = working_set hs ds"
    unfolding loop_inv_def by auto
  from assms(2) have calls: "round_calls c p (working_set hs ds) w1 = Inr (l, w2)"
    by (simp only: sh)
  from round_calls_scored [OF calls] have al:
    "length (slm_responses l) = length hs" "length (llm_responses l) = length hs"
    "chat_histories l = hs"
    by simp_all
  have ht: "height temp = length hs"
    by (simp add: sh(2))
  from assms(3-6) al have z: "length (zipped l) = length hs"
    unfolding ht by (simp add: zipped_def zip7_def)
  from round_step_returns [OF calls assms(7), of A B C D E] obtain aug' where
    step: "round_step c p (aug, temp, w1) =
             Inr (aug', working_set (fst (expand l)) (snd (expand l)), w2)"
    unfolding sh by auto
  have each: "fst (expand l) ! (2 * i) =
        hs ! i @ [\<lparr>role = ''assistant'', content = slm_responses l ! i\<rparr>,
                  \<lparr>role = ''user'', content = slm_questions l ! i\<rparr>] \<and>
      fst (expand l) ! (2 * i + 1) =
        hs ! i @ [\<lparr>role = ''assistant'', content = llm_responses l ! i\<rparr>,
                  \<lparr>role = ''user'', content = llm_questions l ! i\<rparr>] \<and>
      length (fst (expand l) ! (2 * i)) = length (hs ! i) + 2 \<and>
      length (fst (expand l) ! (2 * i + 1)) = length (hs ! i) + 2 \<and>
      map role (drop (length (hs ! i)) (fst (expand l) ! (2 * i))) = [''assistant'', ''user''] \<and>
      map role (drop (length (hs ! i)) (fst (expand l) ! (2 * i + 1))) = [''assistant'', ''user'']"
    if "i < length hs" for i
  proof -
    from that z have i: "i < length (zipped l)" by simp
    note e = expand_nth(1,2) [OF i, unfolded al(3)]
    show ?thesis
      unfolding e by (simp add: roles_of_appended_turns)
  qed
  have "chat_history_list temp ''chat_history'' = Inr hs"
    "chat_history_list (working_set (fst (expand l)) (snd (expand l))) ''chat_history''
       = Inr (fst (expand l))"
    "length hs = height temp" "length (fst (expand l)) = 2 * length hs"
    by (simp_all add: sh(2) length_expand z)
  with step each show ?thesis
    by - (rule exI [of _ aug'],
          rule exI [of _ "working_set (fst (expand l)) (snd (expand l))"],
          rule exI [of _ hs], rule exI [of _ "fst (expand l)"], simp)
qed

theorem successors_extend_parent_witness:
  "\<exists>aug' temp' hs hs'.
     round_step stub example_instruction
       (scored_set [example_starter] [''doc1''] [''slm''] [''llm''] [1],
        working_set example_successors [''doc1'', ''doc1''], 8)
       = Inr (aug', temp', 14) \<and>
     chat_history_list (working_set example_successors [''doc1'', ''doc1'']) ''chat_history''
       = Inr hs \<and>
     chat_history_list temp' ''chat_history'' = Inr hs' \<and>
     length hs = height (working_set example_successors [''doc1'', ''doc1'']) \<and>
     length hs' = 2 * length hs \<and>
     (\<forall>i < length hs.
        hs' ! (2 * i) =
          hs ! i @ [\<lparr>role = ''assistant'', content = slm_responses example_locals_1 ! i\<rparr>,
                    \<lparr>role = ''user'', content = slm_questions example_locals_1 ! i\<rparr>] \<and>
        hs' ! (2 * i + 1) =
          hs ! i @ [\<lparr>role = ''assistant'', content = llm_responses example_locals_1 ! i\<rparr>,
                    \<lparr>role = ''user'', content = llm_questions example_locals_1 ! i\<rparr>] \<and>
        length (hs' ! (2 * i)) = length (hs ! i) + 2 \<and>
        length (hs' ! (2 * i + 1)) = length (hs ! i) + 2 \<and>
        map role (drop (length (hs ! i)) (hs' ! (2 * i))) = [''assistant'', ''user''] \<and>
        map role (drop (length (hs ! i)) (hs' ! (2 * i + 1))) = [''assistant'', ''user''])"
  by (rule successors_extend_parent [OF example_first_round example_calls_1]) simp_all

text \<open>
  Claim C10. In every round, for the conversation at index \<open>i\<close> of the working set for
  which the continuation expander answered on both tracks, and with scores that fit in 64
  bits, the round returns and the new working set has the SLM-track successor (SLM
  response, SLM-track question, SLM-track document) at index \<open>2 * i\<close> and the LLM-track
  successor at index \<open>2 * i + 1\<close>.
\<close>

theorem successors_adjacent_slm_first:
  assumes "after_rounds c p w k = Inr (aug, temp, w1)"
    and "round_calls c p temp w1 = Inr (l, w2)"
    and "list_all int64 (scores l)"
    and "i < height temp"
    and "i < length (slm_questions l)" and "i < length (slm_documents l)"
    and "i < length (llm_questions l)" and "i < length (llm_documents l)"
  shows "\<exists>aug' temp' hs hs' ds'.
           round_step c p (aug, temp, w1) = Inr (aug', temp', w2) \<and>
           chat_history_list temp ''chat_history'' = Inr hs \<and>
           chat_history_list temp' ''chat_history'' = Inr hs' \<and>
           text_list temp' ''document'' = Inr ds' \<and>
           2 * i + 1 < length hs' \<and> length ds' = length hs' \<and>
           hs' ! (2 * i) =
             hs ! i @ [\<lparr>role = ''assistant'', content = slm_responses l ! i\<rparr>,
                       \<lparr>role = ''user'', content = slm_questions l ! i\<rparr>] \<and>
           ds' ! (2 * i) = slm_documents l ! i \<and>
           hs' ! (2 * i + 1) =
             hs ! i @ [\<lparr>role = ''assistant'', content = llm_responses l ! i\<rparr>,
                       \<lparr>role = ''user'', content = llm_questions l ! i\<rparr>] \<and>
           ds' ! (2 * i + 1) = llm_documents l ! i"
proof -
  from after_rounds_inv [OF assms(1)] obtain A B C D E hs ds where
    sh: "aug = scored_set A B C D E" "temp = working_set hs ds"
    unfolding loop_inv_def by auto
  from assms(2) have calls: "round_calls c p (working_set hs ds) w1 = Inr (l, w2)"
    by (simp only: sh)
  from round_calls_scored [OF calls] have al:
    "length (slm_responses l) = length hs" "length (llm_responses l) = length hs"
    "chat_histories l = hs"
    by simp_all
  have ht: "height temp = length hs"
    by (simp add: sh(2))
  from assms(4-8) al have i: "i < length (zipped l)"
    unfolding ht by (simp add: zipped_def zip7_def)
  from round_step_returns [OF calls assms(3), of A B C D E] obtain aug' where
    step: "round_step c p (aug, temp, w1) =
             Inr (aug', working_set (fst (expand l)) (snd (expand l)), w2)"
    unfolding sh by auto
  have a: "chat_history_list temp ''chat_history'' = Inr hs"
    by (simp add: sh(2))
  have b: "chat_history_list (working_set (fst (expand l)) (snd (expand l))) ''chat_history''
             = Inr (fst (expand l))"
    "text_list (working_set (fst (expand l)) (snd (expand l))) ''document''
             = Inr (snd (expand l))"
    by simp_all
  from i have n: "2 * i + 1 < length (fst (expand l))"
    by (simp add: length_expand)
  have m: "length (snd (expand l)) = length (fst (expand l))"
    by (simp add: length_expand)
  note e = expand_nth [OF i, unfolded al(3)]
  from step a b n m e show ?thesis
    by (intro exI conjI)
qed

theorem successors_adjacent_slm_first_witness:
  "\<exists>aug' temp' hs hs' ds'.
     round_step stub example_instruction
       (scored_set [example_starter] [''doc1''] [''slm''] [''llm''] [1],
        working_set example_successors [''doc1'', ''doc1''], 8)
       = Inr (aug', temp', 14) \<and>
     chat_history_list (working_set example_successors [''doc1'', ''doc1'']) ''chat_history''
       = Inr hs \<and>
     chat_history_list temp' ''chat_history'' = Inr hs' \<and>
     text_list temp' ''document'' = Inr ds' \<and>
     2 * 1 + 1 < length hs' \<and> length ds' = length hs' \<and>
     hs' ! (2 * 1) =
       hs ! 1 @ [\<lparr>role = ''assistant'', content = slm_responses example_locals_1 ! 1\<rparr>,
                 \<lparr>role = ''user'', content = slm_questions example_locals_1 ! 1\<rparr>] \<and>
     ds' ! (2 * 1) = slm_documents example_locals_1 ! 1 \<and>
     hs' ! (2 * 1 + 1) =
       hs ! 1 @ [\<lparr>role = ''assistant'', content = llm_responses example_locals_1 ! 1\<rparr>,
                 \<lparr>role = ''user'', content = llm_questions example_locals_1 ! 1\<rparr>] \<and>
     ds' ! (2 * 1 + 1) = llm_documents example_locals_1 ! 1"
  by (rule successors_adjacent_slm_first [OF example_first_round example_calls_1]) simp_all

section \<open>The result set\<close>

lemma head_rows_scored_set:
  "head_rows n (scored_set A B C D E) =
     scored_set (take n A) (take n B) (take n C) (take n D) (take n E)"
  by (simp add: head_rows_def scored_set_def)

lemma tail_rows_scored_set:
  "tail_rows n (scored_set A B C D E) =
     scored_set (drop n A) (drop n B) (drop n C) (drop n D) (drop n E)"
  by (simp add: tail_rows_def scored_set_def)

lemma rounds_add:
  "rounds c p (k + m) st =
     (case rounds c p k st of Inl e \<Rightarrow> Inl e | Inr st' \<Rightarrow> rounds c p m st')"
proof (induction k arbitrary: st)
  case 0
  show ?case by simp
next
  case (Suc k)
  show ?case
  proof (cases "round_step c p st")
    case (Inl e)
    then show ?thesis by simp
  next
    case (Inr s1)
    then show ?thesis using Suc.IH [of s1] by simp
  qed
qed

lemma after_rounds_add:
  "after_rounds c p w (k + m) =
     (case after_rounds c p w k of Inl e \<Rightarrow> Inl e | Inr st \<Rightarrow> rounds c p m st)"
  unfolding after_rounds_def
  by (simp only: rounds_add split: sum.splits prod.splits) simp

lemma after_rounds_earlier:
  assumes "after_rounds c p w n = Inr st" and "k \<le> n"
  obtains st' where "after_rounds c p w k = Inr st'" "rounds c p (n - k) st' = Inr st"
proof -
  from assms(2) have "n = k + (n - k)" by simp
  with assms(1) after_rounds_add [of c p w k "n - k"]
  have "(case after_rounds c p w k of Inl e \<Rightarrow> Inl e | Inr st' \<Rightarrow> rounds c p (n - k) st') = Inr st"
    by simp
  then show ?thesis
    using that by (cases "after_rounds c p w k") simp_all
qed

lemma grown_refl:
  assumes "loop_inv (a, t, w)"
  shows "grown a a"
proof -
  from assms obtain A B C D E where
    "a = scored_set A B C D E" "length B = length A" "length C = length A"
    "length D = length A" "length E = length A"
    unfolding loop_inv_def by auto
  then have "a = scored_set A B C D E \<and> a = scored_set (A @ []) (B @ []) (C @ []) (D @ []) (E @ []) \<and>
        length B = length A \<and> length C = length A \<and> length D = length A \<and>
        length E = length A"
    by simp
  then show ?thesis unfolding grown_def by blast
qed

lemma scored_set_inject:
  "scored_set A B C D E = scored_set A' B' C' D' E' \<longleftrightarrow>
     A = A' \<and> B = B' \<and> C = C' \<and> D = D' \<and> E = E'"
  by (simp add: scored_set_def)

lemma grown_trans:
  assumes "grown a b" and "grown b c"
  shows "grown a c"
proof -
  from assms(1) obtain A B C D E A' B' C' D' E' where
    1: "a = scored_set A B C D E" "b = scored_set (A @ A') (B @ B') (C @ C') (D @ D') (E @ E')"
       "length B = length A" "length C = length A" "length D = length A" "length E = length A"
    unfolding grown_def by blast
  from assms(2) obtain P Q R S T P' Q' R' S' T' where
    2: "b = scored_set P Q R S T" "c = scored_set (P @ P') (Q @ Q') (R @ R') (S @ S') (T @ T')"
    unfolding grown_def by blast
  from 1(2) 2(1) have "P = A @ A'" "Q = B @ B'" "R = C @ C'" "S = D @ D'" "T = E @ E'"
    by (simp_all add: scored_set_inject)
  with 2(2) have "c = scored_set (A @ (A' @ P')) (B @ (B' @ Q')) (C @ (C' @ R'))
      (D @ (D' @ S')) (E @ (E' @ T'))"
    by simp
  with 1(1,3-6) show ?thesis unfolding grown_def by blast
qed

lemma round_step_shape:
  assumes "loop_inv (a, t, w)" and "round_step c p (a, t, w) = Inr (a', t', w')"
  shows "\<exists>A B C D E hs ds l scs.
    a = scored_set A B C D E \<and> t = working_set hs ds \<and>
    length B = length A \<and> length C = length A \<and> length D = length A \<and> length E = length A \<and>
    length ds = length hs \<and>
    round_calls c p t w = Inr (l, w') \<and>
    scored_data l = scored_set hs ds (slm_responses l) (llm_responses l) scs \<and>
    length (slm_responses l) = length hs \<and> length (llm_responses l) = length hs \<and>
    length scs = length hs \<and>
    a' = scored_set (A @ hs) (B @ ds) (C @ slm_responses l) (D @ llm_responses l) (E @ scs) \<and>
    t' = working_set (fst (expand l)) (snd (expand l))"
proof -
  from assms(1) obtain A B C D E hs ds where
    sh: "a = scored_set A B C D E" "t = working_set hs ds" and
    len: "length B = length A" "length C = length A" "length D = length A"
         "length E = length A" "length ds = length hs"
    unfolding loop_inv_def by auto
  from assms(2) have
    "round_step c p (scored_set A B C D E, working_set hs ds, w) = Inr (a', t', w')"
    by (simp only: sh)
  from round_step_Inr [OF this] obtain l :: round_locals where
    l: "round_calls c p (working_set hs ds) w = Inr (l, w')"
       "t' = working_set (fst (expand l)) (snd (expand l))"
       "list_all int64 (scores l)"
    by auto
  from round_step_working_set [OF l(1) l(3), of A B C D E] obtain scs where
    sc: "length scs = length hs"
        "scored_data l = scored_set hs ds (slm_responses l) (llm_responses l) scs"
        "round_step c p (scored_set A B C D E, working_set hs ds, w) =
           Inr (scored_set (A @ hs) (B @ ds) (C @ slm_responses l) (D @ llm_responses l)
                  (E @ scs),
                working_set (fst (expand l)) (snd (expand l)), w')"
    by auto
  from round_calls_scored [OF l(1)] have rl:
    "length (slm_responses l) = length hs" "length (llm_responses l) = length hs" by auto
  from sc(3) assms(2) have
    a': "a' = scored_set (A @ hs) (B @ ds) (C @ slm_responses l) (D @ llm_responses l) (E @ scs)"
    by (simp add: sh)
  from l(1) have rc: "round_calls c p t w = Inr (l, w')" by (simp only: sh)
  from sh len rc sc(2) rl sc(1) a' l(2) show ?thesis
    by (intro exI conjI)
qed

lemma round_step_grown:
  assumes "loop_inv (a, t, w)" and "round_step c p (a, t, w) = Inr (a', t', w')"
  shows "grown a a'"
proof -
  from round_step_shape [OF assms] obtain A B C D E hs ds and l :: round_locals and scs where
    "a = scored_set A B C D E"
    "length B = length A" "length C = length A" "length D = length A" "length E = length A"
    "a' = scored_set (A @ hs) (B @ ds) (C @ slm_responses l) (D @ llm_responses l) (E @ scs)"
    by metis
  then show ?thesis unfolding grown_def by blast
qed

lemma rounds_grown:
  assumes "loop_inv st" and "rounds c p m st = Inr st'"
  shows "grown (fst st) (fst st')"
  using assms
proof (induction m arbitrary: st)
  case 0
  then show ?case by (cases st) (auto intro: grown_refl)
next
  case (Suc m)
  from Suc.prems(2) obtain s1 where
    s1: "round_step c p st = Inr s1" "rounds c p m s1 = Inr st'"
    by (auto split: sum.splits)
  from loop_inv_round_step [OF Suc.prems(1) s1(1)] have "loop_inv s1" .
  from Suc.IH [OF this s1(2)] have g: "grown (fst s1) (fst st')" .
  obtain a t w where st: "st = (a, t, w)" by (cases st) auto
  obtain a1 t1 w1 where s1': "s1 = (a1, t1, w1)" by (cases s1) auto
  from round_step_grown [of a t w c p a1 t1 w1] Suc.prems(1) s1(1)
  have "grown a a1" by (simp add: st s1')
  with g show ?case
    by (auto simp: st s1' intro: grown_trans)
qed

lemma sum_working_sets:
  assumes "after_rounds c p w n = Inr (aug, temp, w')"
  shows "height aug = (\<Sum>k<n. height (working_set_at c p w k))"
  using assms
proof (induction n arbitrary: aug temp w')
  case 0
  then show ?case
    by (auto simp: after_rounds_def empty_frames split: sum.splits prod.splits)
next
  case (Suc n)
  from Suc.prems obtain a t wn where
    n: "after_rounds c p w n = Inr (a, t, wn)" and
    step: "round_step c p (a, t, wn) = Inr (aug, temp, w')"
    by (auto simp: after_rounds_Suc split: sum.splits)
  from round_step_shape [OF after_rounds_inv [OF n] step] obtain A B C D E hs ds and l :: round_locals and scs where
    sh: "a = scored_set A B C D E" "t = working_set hs ds"
      "aug = scored_set (A @ hs) (B @ ds) (C @ slm_responses l) (D @ llm_responses l) (E @ scs)"
    by metis
  have "working_set_at c p w n = t"
    by (simp add: working_set_at_def n)
  with Suc.IH [OF n] show ?case
    by (simp add: sh)
qed

text \<open>
  Claim C5. When \<open>n\<close> rounds are done, the height of the result set is the sum of the
  heights of the working sets of rounds \<open>0, ..., n - 1\<close>. For each of these rounds \<open>k\<close>:
  the table the round appends is the working set of the round, with its chat histories and
  documents, completed by the response and score columns; the result set as it stood
  before round \<open>k\<close> is the top of the final result set, unchanged, and its height is the
  sum of the heights of the earlier working sets; the rows of round \<open>k\<close> follow it
  directly. So every round's scored set is in the result set once, in round order, and
  nothing in the result set is ever removed or changed.
\<close>

theorem result_set_accumulates:
  assumes "after_rounds c p w n = Inr (aug, temp, w')"
  shows "height aug = (\<Sum>k<n. height (working_set_at c p w k)) \<and>
         (\<forall>k<n.
            columns (scored_round c p w k) =
              [''chat_history'', ''document'', ''slm_response'', ''llm_response'', ''scores''] \<and>
            height (scored_round c p w k) = height (working_set_at c p w k) \<and>
            chat_history_list (scored_round c p w k) ''chat_history'' =
              chat_history_list (working_set_at c p w k) ''chat_history'' \<and>
            text_list (scored_round c p w k) ''document'' =
              text_list (working_set_at c p w k) ''document'' \<and>
            height (result_set_at c p w k) = (\<Sum>j<k. height (working_set_at c p w j)) \<and>
            head_rows (height (result_set_at c p w k)) aug = result_set_at c p w k \<and>
            head_rows (height (working_set_at c p w k))
              (tail_rows (height (result_set_at c p w k)) aug) = scored_round c p w k)"
proof (intro conjI allI impI)
  show "height aug = (\<Sum>k<n. height (working_set_at c p w k))"
    by (rule sum_working_sets [OF assms])
next
  fix k
  assume "k < n"
  then have "Suc k \<le> n" by simp
  from after_rounds_earlier [OF assms this] obtain s1 where
    s1: "after_rounds c p w (Suc k) = Inr s1" "rounds c p (n - Suc k) s1 = Inr (aug, temp, w')"
    by blast
  obtain a1 t1 w1 where s1': "s1 = (a1, t1, w1)" by (cases s1) auto
  from s1(1) obtain a t wk where
    k: "after_rounds c p w k = Inr (a, t, wk)" and
    step: "round_step c p (a, t, wk) = Inr (a1, t1, w1)"
    by (auto simp: after_rounds_Suc s1' split: sum.splits)
  from round_step_shape [OF after_rounds_inv [OF k] step]
  obtain A B C D E hs ds and l :: round_locals and scs where
    sh: "a = scored_set A B C D E" "t = working_set hs ds" and
    len: "length B = length A" "length C = length A" "length D = length A"
      "length E = length A" "length ds = length hs" and
    calls: "round_calls c p t wk = Inr (l, w1)" and
    sc: "scored_data l = scored_set hs ds (slm_responses l) (llm_responses l) scs" and
    len': "length (slm_responses l) = length hs" "length (llm_responses l) = length hs"
      "length scs = length hs" and
    a1: "a1 = scored_set (A @ hs) (B @ ds) (C @ slm_responses l) (D @ llm_responses l) (E @ scs)"
    by metis
  from rounds_grown [OF after_rounds_inv [OF s1(1)] s1(2)] have "grown a1 aug"
    by (simp add: s1')
  then obtain A' B' C' D' E' where
    aug: "aug = scored_set ((A @ hs) @ A') ((B @ ds) @ B') ((C @ slm_responses l) @ C')
            ((D @ llm_responses l) @ D') ((E @ scs) @ E')"
    unfolding grown_def a1 scored_set_inject by metis
  have at: "working_set_at c p w k = t" "result_set_at c p w k = a"
    "scored_round c p w k = scored_data l"
    by (simp_all add: working_set_at_def result_set_at_def scored_round_def k calls)
  show "columns (scored_round c p w k) =
      [''chat_history'', ''document'', ''slm_response'', ''llm_response'', ''scores'']"
    by (simp add: at sc scored_set_def columns_def)
  show "height (scored_round c p w k) = height (working_set_at c p w k)"
    by (simp add: at sc sh)
  show "chat_history_list (scored_round c p w k) ''chat_history'' =
      chat_history_list (working_set_at c p w k) ''chat_history''"
    by (simp add: at sc sh)
  show "text_list (scored_round c p w k) ''document'' =
      text_list (working_set_at c p w k) ''document''"
    by (simp add: at sc sh)
  show "height (result_set_at c p w k) = (\<Sum>j<k. height (working_set_at c p w j))"
    using sum_working_sets [OF k] by (simp add: at)
  show "head_rows (height (result_set_at c p w k)) aug = result_set_at c p w k"
    by (simp add: at sh aug head_rows_scored_set len)
  show "head_rows (height (working_set_at c p w k))
      (tail_rows (height (result_set_at c p w k)) aug) = scored_round c p w k"
    by (simp add: at sh sc aug head_rows_scored_set tail_rows_scored_set len len')
qed

theorem result_set_accumulates_witness:
  "height (scored_set [example_starter] [''doc1''] [''slm''] [''llm''] [1]) =
     (\<Sum>k<1. height (working_set_at stub example_instruction 0 k)) \<and>
   result_set_at stub example_instruction 0 0 = scored_set [] [] [] [] [] \<and>
   working_set_at stub example_instruction 0 0 = working_set [example_starter] [''doc1''] \<and>
   scored_round stub example_instruction 0 0 =
     scored_set [example_starter] [''doc1''] [''slm''] [''llm''] [1] \<and>
   head_rows (height (working_set_at stub example_instruction 0 0))
     (tail_rows (height (result_set_at stub example_instruction 0 0))
        (scored_set [example_starter] [''doc1''] [''slm''] [''llm''] [1])) =
     scored_round stub example_instruction 0 0"
  using result_set_accumulates [OF example_first_round]
  by (simp add: result_set_at_def working_set_at_def scored_round_def example_seed example_calls
      empty_frames head_rows_scored_set tail_rows_scored_set)

section \<open>The documents of the working set\<close>

lemma round_calls_expander:
  assumes "round_calls c p (working_set hs ds) w = Inr (l, w')"
  shows "\<exists>w4 w5.
     generate_next_conversation c (llm_model p) hs (slm_responses l) ds (documents p) w4
       = Inr ((slm_questions l, slm_documents l), w5) \<and>
     generate_next_conversation c (slm_model p) hs (slm_responses l) ds (documents p) w5
       = Inr ((llm_questions l, llm_documents l), w')"
  using assms unfolding round_calls_working_set
  by (auto split: sum.splits prod.splits if_splits) blast

lemma set_expand_documents:
  "set (snd (expand l)) \<subseteq> set (slm_documents l) \<union> set (llm_documents l)"
proof
  fix d
  assume "d \<in> set (snd (expand l))"
  then obtain j where j: "j < length (snd (expand l))" "snd (expand l) ! j = d"
    by (auto simp: in_set_conv_nth)
  then have i: "j div 2 < length (zipped l)"
    by (simp add: length_expand)
  then have b: "j div 2 < length (slm_documents l)" "j div 2 < length (llm_documents l)"
    by (simp_all add: zipped_def zip7_def)
  have "j = 2 * (j div 2) \<or> j = 2 * (j div 2) + 1" by presburger
  then show "d \<in> set (slm_documents l) \<union> set (llm_documents l)"
  proof
    assume "j = 2 * (j div 2)"
    with expand_nth(3) [OF i] j(2) have "d = slm_documents l ! (j div 2)" by metis
    with b(1) show ?thesis by simp
  next
    assume "j = 2 * (j div 2) + 1"
    with expand_nth(4) [OF i] j(2) have "d = llm_documents l ! (j div 2)" by metis
    with b(2) show ?thesis by simp
  qed
qed

text \<open>
  Claim C9. The seeding step writes each source document itself beside the starters it
  got for it. Assume that every call of the continuation expander with the document bank
  of the run returns grounding documents that are elements of that bank. Then at the
  start of every round, and when the loop ends, every document of the working set is an
  element of the document bank.
\<close>

theorem documents_drawn_from_bank:
  assumes expander:
    "\<And>m hs rs ds w qs ds' w'.
       generate_next_conversation c m hs rs ds (documents p) w = Inr ((qs, ds'), w')
       \<Longrightarrow> set ds' \<subseteq> set (documents p)"
    and "after_rounds c p w k = Inr (aug, temp, w1)"
  shows "\<exists>ds. text_list temp ''document'' = Inr ds \<and> set ds \<subseteq> set (documents p)"
  using assms(2)
proof (induction k arbitrary: aug temp w1)
  case 0
  then obtain t w0 where
    seed: "seed_documents c p (documents p) (working_set [] []) w = Inr (t, w0)" and
    eq: "temp = t"
    by (auto simp: after_rounds_def empty_frames split: sum.splits prod.splits)
  from seed_documents_working_set [OF seed] obtain hs ds where
    "t = working_set hs ds" "set ds \<subseteq> set (documents p)"
    by auto
  then show ?case by (simp add: eq)
next
  case (Suc k)
  from Suc.prems obtain a t wk where
    k: "after_rounds c p w k = Inr (a, t, wk)" and
    step: "round_step c p (a, t, wk) = Inr (aug, temp, w1)"
    by (auto simp: after_rounds_Suc split: sum.splits)
  from round_step_shape [OF after_rounds_inv [OF k] step]
  obtain hs ds and l :: round_locals where
    t: "t = working_set hs ds" and
    calls: "round_calls c p t wk = Inr (l, w1)" and
    temp: "temp = working_set (fst (expand l)) (snd (expand l))"
    by metis
  from calls have "round_calls c p (working_set hs ds) wk = Inr (l, w1)"
    by (simp only: t)
  from round_calls_expander [OF this] obtain w4 w5 where
    "generate_next_conversation c (llm_model p) hs (slm_responses l) ds (documents p) w4
       = Inr ((slm_questions l, slm_documents l), w5)"
    "generate_next_conversation c (slm_model p) hs (slm_responses l) ds (documents p) w5
       = Inr ((llm_questions l, llm_documents l), w1)"
    by auto
  then have "set (slm_documents l) \<subseteq> set (documents p)"
    "set (llm_documents l) \<subseteq> set (documents p)"
    by (auto dest: expander)
  with set_expand_documents [of l] have "set (snd (expand l)) \<subseteq> set (documents p)"
    by auto
  then show ?case by (simp add: temp)
qed

lemma stub_expander_in_bank:
  assumes "generate_next_conversation stub m hs rs ds (documents example_instruction) w
             = Inr ((qs, ds'), w')"
  shows "set ds' \<subseteq> set (documents example_instruction)"
  using assms by auto

theorem documents_drawn_from_bank_witness:
  "\<exists>ds. text_list (working_set example_successors [''doc1'', ''doc1'']) ''document'' = Inr ds \<and>
        set ds \<subseteq> set (documents example_instruction)"
  using documents_drawn_from_bank [of stub example_instruction 0 1, OF stub_expander_in_bank
      example_first_round] .

section \<open>The calls of a round\<close>

lemma recording_simps:
  "build_knowledge_instruction (recording c) i d =
     record_call (BuildKnowledgeInstruction i d) (build_knowledge_instruction c i d)"
  "generate_conversation_starter (recording c) m n b sp =
     record_call (GenerateConversationStarter m n b sp) (generate_conversation_starter c m n b sp)"
  "build_chat_histories (recording c) i ds hs =
     record_call (BuildChatHistories i ds hs) (build_chat_histories c i ds hs)"
  "generate_conversations_response (recording c) m bs =
     record_call (GenerateConversationsResponse m bs) (generate_conversations_response c m bs)"
  "comparison_score (recording c) m hs lrs srs =
     record_call (ComparisonScore m hs lrs srs) (comparison_score c m hs lrs srs)"
  "generate_next_conversation (recording c) m hs rs ds bank =
     record_call (GenerateNextConversation m hs rs ds bank)
       (generate_next_conversation c m hs rs ds bank)"
  by (simp_all add: recording_def)

lemma record_call_Inr:
  "record_call k f (log, w) = Inr (r, (log', w')) \<longleftrightarrow> f w = Inr (r, w') \<and> log' = log @ [k]"
  by (auto simp: record_call_def split: sum.splits)

lemma round_calls_recording:
  assumes "round_calls (recording c) p (working_set hs ds) (log, w) = Inr (l, (log', w'))"
  shows "\<exists>built w5.
     log' = log @
       [BuildChatHistories (conversation_personalization_instruction p) ds hs,
        GenerateConversationsResponse (slm_model p) built,
        GenerateConversationsResponse (llm_model p) built,
        ComparisonScore (llm_model p) hs (llm_responses l) (slm_responses l),
        GenerateNextConversation (llm_model p) hs (slm_responses l) ds (documents p),
        GenerateNextConversation (slm_model p) hs (slm_responses l) ds (documents p)] \<and>
     generate_next_conversation c (slm_model p) hs (slm_responses l) ds (documents p) w5
       = Inr ((llm_questions l, llm_documents l), w')"
  using assms unfolding round_calls_working_set recording_simps
  by (auto simp: record_call_Inr split: sum.splits prod.splits if_splits)

text \<open>
  Claim C8. In every round of a run with recorded calls, the calls of Steps 2 to 4 are, in
  this order: the chat histories are built once; the responses are generated by the SLM and
  by the LLM from the same built batch; the scorer runs with the LLM; the SLM-track
  continuation call runs with the LLM handle and the SLM responses; the LLM-track
  continuation call, whose answer becomes the LLM-track questions and documents, runs with
  the SLM handle and, again, the SLM responses, not the LLM responses.
\<close>

theorem llm_track_call_has_slm_model_and_slm_responses:
  assumes "after_rounds (recording c) p (log0, w) k = Inr (aug, temp, (log, w1))"
    and "round_calls (recording c) p temp (log, w1) = Inr (l, (log', w2))"
  shows "\<exists>built ds w5.
     text_list temp ''document'' = Inr ds \<and>
     chat_history_list temp ''chat_history'' = Inr (chat_histories l) \<and>
     log' = log @
       [BuildChatHistories (conversation_personalization_instruction p) ds (chat_histories l),
        GenerateConversationsResponse (slm_model p) built,
        GenerateConversationsResponse (llm_model p) built,
        ComparisonScore (llm_model p) (chat_histories l) (llm_responses l) (slm_responses l),
        GenerateNextConversation (llm_model p) (chat_histories l) (slm_responses l) ds
          (documents p),
        GenerateNextConversation (slm_model p) (chat_histories l) (slm_responses l) ds
          (documents p)] \<and>
     generate_next_conversation c (slm_model p) (chat_histories l) (slm_responses l) ds
         (documents p) w5
       = Inr ((llm_questions l, llm_documents l), w2)"
proof -
  from after_rounds_inv [OF assms(1)] obtain hs ds where
    t: "temp = working_set hs ds"
    unfolding loop_inv_def by auto
  from assms(2) have calls:
    "round_calls (recording c) p (working_set hs ds) (log, w1) = Inr (l, (log', w2))"
    by (simp only: t)
  from round_calls_scored [OF calls] have hs: "chat_histories l = hs" by auto
  from round_calls_recording [OF calls] obtain built w5 where
    "log' = log @
       [BuildChatHistories (conversation_personalization_instruction p) ds hs,
        GenerateConversationsResponse (slm_model p) built,
        GenerateConversationsResponse (llm_model p) built,
        ComparisonScore (llm_model p) hs (llm_responses l) (slm_responses l),
        GenerateNextConversation (llm_model p) hs (slm_responses l) ds (documents p),
        GenerateNextConversation (slm_model p) hs (slm_responses l) ds (documents p)]"
    "generate_next_conversation c (slm_model p) hs (slm_responses l) ds (documents p) w5
       = Inr ((llm_questions l, llm_documents l), w2)"
    by auto
  then show ?thesis
    unfolding hs t
    by - (rule exI [of _ built], rule exI [of _ ds], rule exI [of _ w5], simp)
qed

lemma example_recorded_seed:
  "after_rounds (recording stub) example_instruction ([], 0) 0 =
     Inr (empty_augmented_data, working_set [example_starter] [''doc1''],
          ([BuildKnowledgeInstruction ''ask '' ''doc1'',
            GenerateConversationStarter ''llm'' 1 ''ask doc1'' None], 2))"
  by (simp add: after_rounds_def recording_simps record_call_def
      empty_temproary_augmented_data_def DataFrame_def height_def
      vstack_def columns_def working_set_def example_starter_def)

lemma example_recorded_calls:
  "round_calls (recording stub) example_instruction (working_set [example_starter] [''doc1''])
     ([BuildKnowledgeInstruction ''ask '' ''doc1'',
       GenerateConversationStarter ''llm'' 1 ''ask doc1'' None], 2) =
   Inr (example_locals,
        ([BuildKnowledgeInstruction ''ask '' ''doc1'',
          GenerateConversationStarter ''llm'' 1 ''ask doc1'' None,
          BuildChatHistories ''persona'' [''doc1''] [example_starter],
          GenerateConversationsResponse ''slm'' [''doc1''],
          GenerateConversationsResponse ''llm'' [''doc1''],
          ComparisonScore ''llm'' [example_starter] [''llm''] [''slm''],
          GenerateNextConversation ''llm'' [example_starter] [''slm''] [''doc1''] [''doc1''],
          GenerateNextConversation ''slm'' [example_starter] [''slm''] [''doc1''] [''doc1'']],
         8))"
  by (simp add: round_calls_working_set recording_simps record_call_def example_locals_def
      example_starter_def scored_set_frame int_series_def)

theorem llm_track_call_has_slm_model_and_slm_responses_witness:
  "\<exists>built ds w5.
     text_list (working_set [example_starter] [''doc1'']) ''document'' = Inr ds \<and>
     chat_history_list (working_set [example_starter] [''doc1'']) ''chat_history''
       = Inr (chat_histories example_locals) \<and>
     [BuildKnowledgeInstruction ''ask '' ''doc1'',
      GenerateConversationStarter ''llm'' 1 ''ask doc1'' None,
      BuildChatHistories ''persona'' [''doc1''] [example_starter],
      GenerateConversationsResponse ''slm'' [''doc1''],
      GenerateConversationsResponse ''llm'' [''doc1''],
      ComparisonScore ''llm'' [example_starter] [''llm''] [''slm''],
      GenerateNextConversation ''llm'' [example_starter] [''slm''] [''doc1''] [''doc1''],
      GenerateNextConversation ''slm'' [example_starter] [''slm''] [''doc1''] [''doc1'']] =
     [BuildKnowledgeInstruction ''ask '' ''doc1'',
      GenerateConversationStarter ''llm'' 1 ''ask doc1'' None] @
       [BuildChatHistories (conversation_personalization_instruction example_instruction) ds
          (chat_histories example_locals),
        GenerateConversationsResponse (slm_model example_instruction) built,
        GenerateConversationsResponse (llm_model example_instruction) built,
        ComparisonScore (llm_model example_instruction) (chat_histories example_locals)
          (llm_responses example_locals) (slm_responses example_locals),
        GenerateNextConversation (llm_model example_instruction) (chat_histories example_locals)
          (slm_responses example_locals) ds (documents example_instruction),
        GenerateNextConversation (slm_model example_instruction) (chat_histories example_locals)
          (slm_responses example_locals) ds (documents example_instruction)] \<and>
     generate_next_conversation stub (slm_model example_instruction)
         (chat_histories example_locals) (slm_responses example_locals) ds
         (documents example_instruction) w5
       = Inr ((llm_questions example_locals, llm_documents example_locals), 8)"
  by (rule llm_track_call_has_slm_model_and_slm_responses
      [OF example_recorded_seed example_recorded_calls])

section \<open>The value returned\<close>

lemma pipeline_state_after_rounds:
  "pipeline_state c p w = after_rounds c p w (nat (max_conversations p))"
  by (simp add: pipeline_state_def after_rounds_def)

lemma knowledge_pipeline_Inr:
  "knowledge_pipeline c p w = Inr (df, w') \<longleftrightarrow>
     (\<exists>aug. after_rounds c p w (nat (max_conversations p)) = Inr (aug, df, w'))"
  by (auto simp: knowledge_pipeline_def pipeline_state_after_rounds split: sum.splits)

lemma columns_frames [simp]:
  "columns (working_set hs ds) = [''chat_history'', ''document'']"
  "columns (scored_set A B C D E) =
     [''chat_history'', ''document'', ''slm_response'', ''llm_response'', ''scores'']"
  by (simp_all add: columns_def working_set_def scored_set_def)

text \<open>
  Claim C1. Whenever the pipeline returns, the table it returns is the working set of the
  final loop state, a table of the two columns \<open>chat_history\<close> and \<open>document\<close>; the
  result set of that state, with its five columns, is not returned. When at least one
  round ran, the returned table is the one the last round built from its expansion, which
  no round has given responses or scores; with no round at all it is the seeded working set.
\<close>

theorem returns_last_expanded_working_set:
  assumes "knowledge_pipeline c p w = Inr (df, w')"
  shows "columns df = [''chat_history'', ''document''] \<and>
         (\<exists>aug. pipeline_state c p w = Inr (aug, df, w') \<and>
            columns aug =
              [''chat_history'', ''document'', ''slm_response'', ''llm_response'', ''scores'']) \<and>
         (\<forall>k. nat (max_conversations p) = Suc k \<longrightarrow>
            (\<exists>a t wk l.
               after_rounds c p w k = Inr (a, t, wk) \<and>
               round_calls c p t wk = Inr (l, w') \<and>
               df = [(''chat_history'', ListStruct (fst (expand l))),
                     (''document'', Utf8 (snd (expand l)))])) \<and>
         (max_conversations p \<le> 0 \<longrightarrow>
            seed_documents c p (documents p) empty_temproary_augmented_data w = Inr (df, w'))"
proof -
  from assms obtain aug where
    fin: "after_rounds c p w (nat (max_conversations p)) = Inr (aug, df, w')"
    by (auto simp: knowledge_pipeline_Inr)
  from after_rounds_inv [OF fin] obtain A B C D E hs ds where
    sh: "aug = scored_set A B C D E" "df = working_set hs ds"
    unfolding loop_inv_def by auto
  have 1: "columns df = [''chat_history'', ''document'']"
    by (simp add: sh)
  have 2: "\<exists>aug. pipeline_state c p w = Inr (aug, df, w') \<and>
            columns aug =
              [''chat_history'', ''document'', ''slm_response'', ''llm_response'', ''scores'']"
    using fin by (intro exI [of _ aug]) (simp add: pipeline_state_after_rounds sh(1))
  have 3: "\<exists>a t wk l.
               after_rounds c p w k = Inr (a, t, wk) \<and>
               round_calls c p t wk = Inr (l, w') \<and>
               df = [(''chat_history'', ListStruct (fst (expand l))),
                     (''document'', Utf8 (snd (expand l)))]"
    if "nat (max_conversations p) = Suc k" for k
  proof -
    from fin that have "after_rounds c p w (Suc k) = Inr (aug, df, w')" by simp
    then obtain a t wk where
      k: "after_rounds c p w k = Inr (a, t, wk)" and
      step: "round_step c p (a, t, wk) = Inr (aug, df, w')"
      by (auto simp: after_rounds_Suc split: sum.splits)
    from round_step_shape [OF after_rounds_inv [OF k] step]
    obtain l :: round_locals where
      "round_calls c p t wk = Inr (l, w')"
      "df = working_set (fst (expand l)) (snd (expand l))"
      by metis
    with k show ?thesis
      by (intro exI [of _ a] exI [of _ t] exI [of _ wk] exI [of _ l])
         (simp add: working_set_def)
  qed
  have 4: "seed_documents c p (documents p) empty_temproary_augmented_data w = Inr (df, w')"
    if "max_conversations p \<le> 0"
    using fin that by (auto simp: after_rounds_def split: sum.splits)
  from 1 2 3 4 show ?thesis by blast
qed

lemma no_round_instruction_simps [simp]:
  "documents no_round_instruction = [''doc1'']"
  "conversation_starter_instruction no_round_instruction = ''ask ''"
  "conversation_personalization_instruction no_round_instruction = ''persona''"
  "conversation_starter_count no_round_instruction = 1"
  "max_conversations no_round_instruction = 0"
  "slm_model no_round_instruction = ''slm''"
  "llm_model no_round_instruction = ''llm''"
  by (simp_all add: no_round_instruction_def)

lemma no_round_pipeline:
  "knowledge_pipeline stub no_round_instruction 0 =
     Inr (working_set [example_starter] [''doc1''], 2)"
  by (simp add: knowledge_pipeline_def pipeline_state_def empty_temproary_augmented_data_def
      DataFrame_def height_def vstack_def columns_def working_set_def example_starter_def)

lemma example_pipeline:
  "knowledge_pipeline stub example_instruction 0 =
     Inr (working_set example_successors [''doc1'', ''doc1''], 8)"
  using example_first_round
  by (simp add: knowledge_pipeline_def pipeline_state_after_rounds)

theorem returns_last_expanded_working_set_witness:
  "columns (working_set example_successors [''doc1'', ''doc1'']) = [''chat_history'', ''document''] \<and>
   (\<exists>aug. pipeline_state stub example_instruction 0 =
            Inr (aug, working_set example_successors [''doc1'', ''doc1''], 8) \<and>
          columns aug =
            [''chat_history'', ''document'', ''slm_response'', ''llm_response'', ''scores'']) \<and>
   (\<exists>a t wk l.
      after_rounds stub example_instruction 0 0 = Inr (a, t, wk) \<and>
      round_calls stub example_instruction t wk = Inr (l, 8) \<and>
      working_set example_successors [''doc1'', ''doc1''] =
        [(''chat_history'', ListStruct (fst (expand l))),
         (''document'', Utf8 (snd (expand l)))]) \<and>
   seed_documents stub no_round_instruction (documents no_round_instruction)
     empty_temproary_augmented_data 0 = Inr (working_set [example_starter] [''doc1''], 2)"
proof -
  from returns_last_expanded_working_set [OF example_pipeline] have
    "columns (working_set example_successors [''doc1'', ''doc1'']) = [''chat_history'', ''document''] \<and>
     (\<exists>aug. pipeline_state stub example_instruction 0 =
            Inr (aug, working_set example_successors [''doc1'', ''doc1''], 8) \<and>
          columns aug =
            [''chat_history'', ''document'', ''slm_response'', ''llm_response'', ''scores'']) \<and>
     (\<exists>a t wk l.
        after_rounds stub example_instruction 0 0 = Inr (a, t, wk) \<and>
        round_calls stub example_instruction t wk = Inr (l, 8) \<and>
        working_set example_successors [''doc1'', ''doc1''] =
          [(''chat_history'', ListStruct (fst (expand l))),
           (''document'', Utf8 (snd (expand l)))])"
    by simp
  moreover from returns_last_expanded_working_set [OF no_round_pipeline] have
    "seed_documents stub no_round_instruction (documents no_round_instruction)
       empty_temproary_augmented_data 0 = Inr (working_set [example_starter] [''doc1''], 2)"
    by simp
  ultimately show ?thesis by simp
qed

text \<open>
  Claim C2. The docstring of \<open>knowledge_pipeline\<close> promises a table with the five columns
  \<open>chat_history\<close>, \<open>document\<close>, \<open>slm_response\<close>, \<open>llm_response\<close> and \<open>scores\<close>. On
  the example run (one document, one starter, one round) the table returned has the first
  two only: there is no response and no score column in it.
\<close>

theorem returned_table_has_two_columns:
  "knowledge_pipeline stub example_instruction 0 =
     Inr (working_set example_successors [''doc1'', ''doc1''], 8) \<and>
   columns (working_set example_successors [''doc1'', ''doc1'']) = [''chat_history'', ''document''] \<and>
   map_of (working_set example_successors [''doc1'', ''doc1'']) ''slm_response'' = None \<and>
   map_of (working_set example_successors [''doc1'', ''doc1'']) ''llm_response'' = None \<and>
   map_of (working_set example_successors [''doc1'', ''doc1'']) ''scores'' = None"
  by (simp add: example_pipeline) (simp add: working_set_def)

section \<open>Misaligned arrays\<close>

lemma silent_expander_simps [simp]:
  "build_knowledge_instruction silent_expander = build_knowledge_instruction stub"
  "generate_conversation_starter silent_expander = generate_conversation_starter stub"
  "build_chat_histories silent_expander = build_chat_histories stub"
  "generate_conversations_response silent_expander = generate_conversations_response stub"
  "comparison_score silent_expander = comparison_score stub"
  "generate_next_conversation silent_expander m hs rs ds bank w = Inr (([], []), Suc w)"
  by (simp_all add: silent_expander_def)

lemma short_expander_simps [simp]:
  "build_knowledge_instruction short_expander = build_knowledge_instruction stub"
  "generate_conversation_starter short_expander = generate_conversation_starter stub"
  "build_chat_histories short_expander = build_chat_histories stub"
  "generate_conversations_response short_expander = generate_conversations_response stub"
  "comparison_score short_expander = comparison_score stub"
  "generate_next_conversation short_expander m hs rs ds bank w =
     Inr ((take 1 (map (\<lambda>h. m) hs),
           take 1 (map (\<lambda>h. case bank of [] \<Rightarrow> [] | b # _ \<Rightarrow> b) hs)), Suc w)"
  by (simp_all add: short_expander_def)

lemma empty_bank_instruction_simps [simp]:
  "documents empty_bank_instruction = []"
  "conversation_starter_instruction empty_bank_instruction = ''ask ''"
  "conversation_personalization_instruction empty_bank_instruction = ''persona''"
  "conversation_starter_count empty_bank_instruction = 1"
  "max_conversations empty_bank_instruction = 1"
  "slm_model empty_bank_instruction = ''slm''"
  "llm_model empty_bank_instruction = ''llm''"
  by (simp_all add: empty_bank_instruction_def)






lemma short_locals_1_simps [simp]:
  "chat_histories short_locals_1 = example_successors"
  "slm_responses short_locals_1 = [''slm'', ''slm'']"
  "llm_responses short_locals_1 = [''llm'', ''llm'']"
  "scores short_locals_1 = [3, 3]"
  "slm_questions short_locals_1 = [''llm'']"
  "slm_documents short_locals_1 = [''doc1'']"
  "llm_questions short_locals_1 = [''slm'']"
  "llm_documents short_locals_1 = [''doc1'']"
  by (simp_all add: short_locals_1_def)




section \<open>An empty working set\<close>

lemma empty_bank_seed:
  "seed_documents stub empty_bank_instruction (documents empty_bank_instruction)
     empty_temproary_augmented_data 0 = Inr (empty_temproary_augmented_data, 0)"
  by simp

lemma empty_bank_calls:
  "round_calls stub empty_bank_instruction (working_set [] []) 0 =
     Inr (\<lparr>scored_data = scored_set [] [] [] [] [], chat_histories = [],
            slm_responses = [], llm_responses = [], scores = [],
            slm_questions = [], slm_documents = [],
            llm_questions = [], llm_documents = []\<rparr>, 6)"
  by (simp add: round_calls_working_set scored_set_frame int_series_def)

lemma empty_bank_rounds:
  "rounds stub empty_bank_instruction (nat (max_conversations empty_bank_instruction))
     (empty_augmented_data, empty_temproary_augmented_data, 0) =
   Inr (empty_augmented_data, empty_temproary_augmented_data, 6)"
proof -
  have "expand \<lparr>scored_data = scored_set [] [] [] [] [], chat_histories = [],
            slm_responses = [], llm_responses = [], scores = [],
            slm_questions = [], slm_documents = [],
            llm_questions = [], llm_documents = []\<rparr> = ([], [])"
    by (simp add: expand_def zip7_def)
  moreover have "DataFrame [(''chat_history'', ListStruct []), (''document'', Utf8 [])] =
      Inr (working_set [] [])"
    by (simp add: DataFrame_def height_def working_set_def)
  ultimately have "round_step stub empty_bank_instruction
      (scored_set [] [] [] [] [], working_set [] [], 0) =
      Inr (scored_set [] [] [] [] [], working_set [] [], 6)"
    by (simp add: round_step_def empty_bank_calls vstack_scored)
  then show ?thesis
    by (simp add: empty_frames)
qed

text \<open>
  Claim C7, as stated, fails. With an empty document bank the seeding step returns the
  empty working set and raises nothing; the first round then makes its six collaborator
  calls on empty batches (the world counts them), and the pipeline returns an empty table.
\<close>

theorem empty_bank_not_detected:
  "seed_documents stub empty_bank_instruction (documents empty_bank_instruction)
     empty_temproary_augmented_data 0 = Inr (empty_temproary_augmented_data, 0) \<and>
   height empty_temproary_augmented_data = 0 \<and>
   max_conversations empty_bank_instruction = 1 \<and>
   knowledge_pipeline stub empty_bank_instruction 0 = Inr (empty_temproary_augmented_data, 6)"
  using empty_bank_rounds
  by (simp add: knowledge_pipeline_def pipeline_state_def)
     (simp add: empty_temproary_augmented_data_def height_def)

text \<open>
  Claim C7, amended. When the seeding step leaves an empty working set (the document bank
  is empty, or no document got a starter), nothing is raised before the loop: the seeded
  table is the empty two-column table, and the run is the round loop started on it, with
  the loop's outcome as the outcome of the run.
\<close>

theorem empty_seed_runs_the_loop:
  assumes "seed_documents c p (documents p) empty_temproary_augmented_data w = Inr (temp, w0)"
    and "height temp = 0"
  shows "temp = empty_temproary_augmented_data \<and>
         knowledge_pipeline c p w =
           (case rounds c p (nat (max_conversations p))
                   (empty_augmented_data, empty_temproary_augmented_data, w0) of
              Inl e \<Rightarrow> Inl e
            | Inr (augmented_data, temproary_augmented_data, w') \<Rightarrow>
                Inr (temproary_augmented_data, w'))"
proof -
  from assms(1) have "seed_documents c p (documents p) (working_set [] []) w = Inr (temp, w0)"
    by (simp add: empty_frames)
  from seed_documents_working_set [OF this] obtain hs ds where
    t: "temp = working_set hs ds" "length ds = length hs"
    by auto
  with assms(2) have "hs = []" "ds = []" by simp_all
  with t have e: "temp = empty_temproary_augmented_data"
    by (simp add: empty_frames)
  with assms(1) show ?thesis
    by (simp add: knowledge_pipeline_def pipeline_state_def)
qed

theorem empty_seed_runs_the_loop_witness:
  "knowledge_pipeline stub empty_bank_instruction 0 = Inr (empty_temproary_augmented_data, 6)"
proof -
  have h: "height empty_temproary_augmented_data = 0"
    by (simp add: empty_temproary_augmented_data_def height_def)
  from empty_seed_runs_the_loop [OF empty_bank_seed h] show ?thesis
    unfolding empty_bank_rounds by simp
qed

end
